theory Spec2Isabelle
  imports Complex_Main "HOL-Library.Word" "HOL-Library.AList"
begin

section \<open>Cognitive Fusion core: data model\<close>

text \<open>
  The embedding follows the C++ headers under \<^verbatim>\<open>include/bolt/cognitive\<close> and
  \<^verbatim>\<open>src/bolt/cognitive/atomspace.cpp\<close>.

  Conventions of the model.
  \<^item> \<^verbatim>\<open>float\<close> is modelled by \<^typ>\<open>real\<close>: comparisons, \<^verbatim>\<open>std::min\<close>,
    \<^verbatim>\<open>std::clamp\<close> and the arithmetic are those of the source, but rounding,
    infinities and NaN are outside the model. The exception is the learner that the
    facade owns, whose loss depends on overflow: it is modelled over \<open>fval\<close>, with
    infinities and NaN (section ``Single-precision values'').
  \<^item> \<^verbatim>\<open>AtomHandle\<close> is \<^verbatim>\<open>uint64_t\<close>, a 64-bit word; \<^verbatim>\<open>size_t\<close> values
    (dimensions, \<^verbatim>\<open>k\<close>) are natural numbers.
  \<^item> A \<^verbatim>\<open>std::unordered_map\<close> that the code iterates over is an association list
    (its order stands for the unspecified iteration order, and the statements below
    hold for every order); one that is only looked up is a partial map.
  \<^item> A \<^verbatim>\<open>throw std::runtime_error(msg)\<close> is the value \<open>Inl (RuntimeError msg)\<close>;
    an out-of-range \<^verbatim>\<open>operator[]\<close> on a vector and a null dereference are undefined
    behaviour in C++ and are the values \<open>Inl OutOfBounds\<close> and \<open>Inl NullDereference\<close>.
  \<^item> Mutexes are not modelled: every operation is taken as atomic.
\<close>

datatype error = RuntimeError string | OutOfBounds | NullDereference

type_synonym AtomHandle = "64 word"

record TruthValue =
  strength :: real
  confidence :: real

text \<open>
  \<^verbatim>\<open>Node\<close> and \<^verbatim>\<open>Link\<close> are the two subclasses of \<^verbatim>\<open>Atom\<close>. A link's
  \<^verbatim>\<open>outgoing_\<close> holds non-null shared pointers to atoms; the operations modelled here
  read only \<^verbatim>\<open>getHandle()\<close> through them, and a handle never changes, so the model
  stores the handles of the atoms pointed to.
\<close>

datatype Atom =
    Node AtomHandle string TruthValue "real list"
  | Link AtomHandle string TruthValue "AtomHandle list"

fun getHandle :: "Atom \<Rightarrow> AtomHandle" where
  "getHandle (Node h n tv e) = h"
| "getHandle (Link h n tv out) = h"

fun getName :: "Atom \<Rightarrow> string" where
  "getName (Node h n tv e) = n"
| "getName (Link h n tv out) = n"

fun isNode :: "Atom \<Rightarrow> bool" where
  "isNode (Node h n tv e) = True"
| "isNode (Link h n tv out) = False"

fun isLink :: "Atom \<Rightarrow> bool" where
  "isLink (Node h n tv e) = False"
| "isLink (Link h n tv out) = True"

fun getOutgoing :: "Atom \<Rightarrow> AtomHandle list" where
  "getOutgoing (Node h n tv e) = []"
| "getOutgoing (Link h n tv out) = out"

fun getEmbedding_node :: "Atom \<Rightarrow> real list" where
  "getEmbedding_node (Node h n tv e) = e"
| "getEmbedding_node (Link h n tv out) = []"

definition hasEmbedding :: "Atom \<Rightarrow> bool" where
  "hasEmbedding a = (getEmbedding_node a \<noteq> [])"

definition initial_truth_value :: TruthValue where
  "initial_truth_value = \<lparr>strength = 1, confidence = 1\<rparr>"

section \<open>Knowledge store (AtomSpace)\<close>

record AtomSpace =
  as_atoms :: "(AtomHandle \<times> Atom) list"
  as_name_index :: "string \<Rightarrow> AtomHandle list option"
  as_next_handle :: AtomHandle

definition AtomSpace_init :: AtomSpace where
  "AtomSpace_init = \<lparr>as_atoms = [], as_name_index = (\<lambda>n. None), as_next_handle = 0\<rparr>"

text \<open>\<^verbatim>\<open>name_index_[name].push_back(handle)\<close>: a missing key starts from the empty vector.\<close>

definition index_push :: "(string \<Rightarrow> AtomHandle list option) \<Rightarrow> string \<Rightarrow> AtomHandle
    \<Rightarrow> (string \<Rightarrow> AtomHandle list option)" where
  "index_push idx name h =
     idx(name := Some ((case idx name of None \<Rightarrow> [] | Some hs \<Rightarrow> hs) @ [h]))"

text \<open>The creation path of \<^verbatim>\<open>addNode\<close>: \<^verbatim>\<open>generateHandle\<close> is \<^verbatim>\<open>++next_handle_\<close>.\<close>

definition createNode :: "AtomSpace \<Rightarrow> string \<Rightarrow> real list \<Rightarrow> Atom \<times> AtomSpace" where
  "createNode s name embedding =
     (let handle = as_next_handle s + 1;
          node = Node handle name initial_truth_value embedding
      in (node, \<lparr>as_atoms = AList.update handle node (as_atoms s),
                 as_name_index = index_push (as_name_index s) name handle,
                 as_next_handle = handle\<rparr>))"

text \<open>
  \<^verbatim>\<open>addNode\<close>: only the first handle recorded under the name is inspected
  (\<^verbatim>\<open>it->second[0]\<close>). \<^verbatim>\<open>atoms_[h]\<close> on a handle the map lacks would yield a null
  pointer that is dereferenced next.
\<close>

definition addNode :: "AtomSpace \<Rightarrow> string \<Rightarrow> real list \<Rightarrow> error + (Atom \<times> AtomSpace)" where
  "addNode s name embedding =
     (case as_name_index s name of
        None \<Rightarrow> Inr (createNode s name embedding)
      | Some [] \<Rightarrow> Inr (createNode s name embedding)
      | Some (h # hs) \<Rightarrow>
          (case map_of (as_atoms s) h of
             None \<Rightarrow> Inl NullDereference
           | Some existing \<Rightarrow>
               if isNode existing then Inr (existing, s)
               else Inr (createNode s name embedding)))"

definition addLink :: "AtomSpace \<Rightarrow> string \<Rightarrow> AtomHandle list \<Rightarrow> Atom \<times> AtomSpace" where
  "addLink s type outgoing =
     (let handle = as_next_handle s + 1;
          link = Link handle type initial_truth_value outgoing
      in (link, \<lparr>as_atoms = AList.update handle link (as_atoms s),
                 as_name_index = index_push (as_name_index s) type handle,
                 as_next_handle = handle\<rparr>))"

definition getAtom :: "AtomSpace \<Rightarrow> AtomHandle \<Rightarrow> Atom option" where
  "getAtom s handle = map_of (as_atoms s) handle"

text \<open>The file-local \<^verbatim>\<open>cosineSimilarity\<close> of \<^verbatim>\<open>atomspace.cpp\<close>, on raw vectors.\<close>

definition cosineSimilarity :: "real list \<Rightarrow> real list \<Rightarrow> real" where
  "cosineSimilarity a b =
     (if length a \<noteq> length b \<or> a = [] then 0
      else
        let dot_product = (\<Sum>i\<leftarrow>[0..<length a]. a ! i * b ! i);
            norm_a = (\<Sum>i\<leftarrow>[0..<length a]. a ! i * a ! i);
            norm_b = (\<Sum>i\<leftarrow>[0..<length a]. b ! i * b ! i);
            denominator = sqrt norm_a * sqrt norm_b
        in if denominator < 1 / 10 ^ 8 then 0 else dot_product / denominator)"

text \<open>
  \<^verbatim>\<open>std::sort\<close> with the comparator \<^verbatim>\<open>a.second > b.second\<close>. The standard leaves the
  order of entries with equal similarity open; the model takes the insertion sort,
  and the statements about results use only that the output is a permutation of the
  input in non-increasing order of similarity.
\<close>

fun insert_desc :: "('a \<times> real) \<Rightarrow> ('a \<times> real) list \<Rightarrow> ('a \<times> real) list" where
  "insert_desc x [] = [x]"
| "insert_desc x (y # ys) = (if snd x > snd y then x # y # ys else y # insert_desc x ys)"

fun sort_desc :: "('a \<times> real) list \<Rightarrow> ('a \<times> real) list" where
  "sort_desc [] = []"
| "sort_desc (x # xs) = insert_desc x (sort_desc xs)"

text \<open>\<^verbatim>\<open>if (similarities.size() > k) similarities.resize(k)\<close>.\<close>

definition truncate_to :: "nat \<Rightarrow> 'a list \<Rightarrow> 'a list" where
  "truncate_to k similarities = (if length similarities > k then take k similarities else similarities)"

text \<open>The scan of \<^verbatim>\<open>querySimilar\<close>: nodes that carry an embedding, kept when
  \<^verbatim>\<open>sim >= threshold\<close>.\<close>

fun collect_similar :: "real list \<Rightarrow> real \<Rightarrow> (AtomHandle \<times> Atom) list \<Rightarrow> (Atom \<times> real) list" where
  "collect_similar q threshold [] = []"
| "collect_similar q threshold ((h, atom) # rest) =
     (if isNode atom \<and> hasEmbedding atom
          \<and> cosineSimilarity q (getEmbedding_node atom) \<ge> threshold
      then (atom, cosineSimilarity q (getEmbedding_node atom)) # collect_similar q threshold rest
      else collect_similar q threshold rest)"

definition querySimilar :: "AtomSpace \<Rightarrow> real list \<Rightarrow> nat \<Rightarrow> real \<Rightarrow> (Atom \<times> real) list" where
  "querySimilar s query_embedding k threshold =
     truncate_to k (sort_desc (collect_similar query_embedding threshold (as_atoms s)))"

section \<open>Embedding space\<close>

text \<open>
  \<^verbatim>\<open>TensorEmbedding\<close> keeps \<^verbatim>\<open>data_\<close> and \<^verbatim>\<open>dimensions_\<close>; the constructor from a
  vector sets \<^verbatim>\<open>dimensions_ = data.size()\<close>.
\<close>

record TensorEmbedding =
  te_data :: "real list"
  te_dimensions :: nat

definition TensorEmbedding_of :: "real list \<Rightarrow> TensorEmbedding" where
  "TensorEmbedding_of v = \<lparr>te_data = v, te_dimensions = length v\<rparr>"

definition te_cosineSimilarity :: "TensorEmbedding \<Rightarrow> TensorEmbedding \<Rightarrow> real" where
  "te_cosineSimilarity a b =
     (if te_dimensions a \<noteq> te_dimensions b \<or> te_dimensions a = 0 then 0
      else
        let dot_product = (\<Sum>i\<leftarrow>[0..<te_dimensions a]. te_data a ! i * te_data b ! i);
            norm_a = (\<Sum>i\<leftarrow>[0..<te_dimensions a]. te_data a ! i * te_data a ! i);
            norm_b = (\<Sum>i\<leftarrow>[0..<te_dimensions a]. te_data b ! i * te_data b ! i);
            denominator = sqrt norm_a * sqrt norm_b
        in if denominator < 1 / 10 ^ 8 then 0 else dot_product / denominator)"

record EmbeddingSpace =
  es_dimensions :: nat
  es_embeddings :: "(string \<times> TensorEmbedding) list"

definition EmbeddingSpace_init :: "nat \<Rightarrow> EmbeddingSpace" where
  "EmbeddingSpace_init dims = \<lparr>es_dimensions = dims, es_embeddings = []\<rparr>"

definition addEmbedding :: "EmbeddingSpace \<Rightarrow> string \<Rightarrow> TensorEmbedding \<Rightarrow> error + EmbeddingSpace" where
  "addEmbedding es ident embedding =
     (if te_dimensions embedding \<noteq> es_dimensions es
      then Inl (RuntimeError ''Embedding dimension mismatch'')
      else Inr (es\<lparr>es_embeddings := es_embeddings es @ [(ident, embedding)]\<rparr>))"

fun collect_nearest :: "TensorEmbedding \<Rightarrow> real \<Rightarrow> (string \<times> TensorEmbedding) list
    \<Rightarrow> (string \<times> real) list" where
  "collect_nearest q threshold [] = []"
| "collect_nearest q threshold ((ident, embedding) # rest) =
     (if te_cosineSimilarity q embedding \<ge> threshold
      then (ident, te_cosineSimilarity q embedding) # collect_nearest q threshold rest
      else collect_nearest q threshold rest)"

definition findNearest :: "EmbeddingSpace \<Rightarrow> TensorEmbedding \<Rightarrow> nat \<Rightarrow> real
    \<Rightarrow> error + (string \<times> real) list" where
  "findNearest es query k threshold =
     (if te_dimensions query \<noteq> es_dimensions es
      then Inl (RuntimeError ''Query dimension mismatch'')
      else Inr (truncate_to k (sort_desc (collect_nearest query threshold (es_embeddings es)))))"

text \<open>\<^verbatim>\<open>getEmbedding\<close>: the first entry stored under the name, or \<^verbatim>\<open>nullptr\<close>.\<close>

fun lookup_first :: "string \<Rightarrow> (string \<times> TensorEmbedding) list \<Rightarrow> TensorEmbedding option" where
  "lookup_first ident [] = None"
| "lookup_first ident ((emb_id, embedding) # rest) =
     (if emb_id = ident then Some embedding else lookup_first ident rest)"

definition getEmbedding :: "EmbeddingSpace \<Rightarrow> string \<Rightarrow> TensorEmbedding option" where
  "getEmbedding es ident = lookup_first ident (es_embeddings es)"

section \<open>Learnable network\<close>

definition relu :: "real \<Rightarrow> real" where
  "relu x = max 0 x"

definition reluDerivative :: "real \<Rightarrow> real" where
  "reluDerivative x = (if x > 0 then 1 else 0)"

text \<open>
  \<^verbatim>\<open>NeuralLayer\<close>. The constructor shapes \<^verbatim>\<open>weights_\<close> as
  \<^verbatim>\<open>[output_size][input_size]\<close> and \<^verbatim>\<open>biases_\<close> as \<^verbatim>\<open>[output_size]\<close>, and no
  member changes these shapes (\<open>layer_shaped\<close> below); the random initial weights are
  a parameter of the model's constructor.
\<close>

record NeuralLayer =
  nl_input_size :: nat
  nl_output_size :: nat
  nl_weights :: "real list list"
  nl_biases :: "real list"
  nl_activation :: "real \<Rightarrow> real"
  nl_activation_derivative :: "real \<Rightarrow> real"
  nl_last_input :: "real list"
  nl_last_output :: "real list"
  nl_last_preactivation :: "real list"

definition NeuralLayer_init :: "nat \<Rightarrow> nat \<Rightarrow> real list list \<Rightarrow> NeuralLayer" where
  "NeuralLayer_init input_size output_size drawn =
     \<lparr>nl_input_size = input_size, nl_output_size = output_size,
      nl_weights = drawn, nl_biases = replicate output_size (1 / 100),
      nl_activation = relu, nl_activation_derivative = reluDerivative,
      nl_last_input = [], nl_last_output = [], nl_last_preactivation = []\<rparr>"

definition layer_shaped :: "NeuralLayer \<Rightarrow> bool" where
  "layer_shaped l =
     (length (nl_weights l) = nl_output_size l
      \<and> list_all (\<lambda>row. length row = nl_input_size l) (nl_weights l)
      \<and> length (nl_biases l) = nl_output_size l)"

text \<open>
  \<^verbatim>\<open>NeuralLayer::forward\<close> has no length check: it reads \<^verbatim>\<open>input[j]\<close> for every
  \<^verbatim>\<open>j < input_size_\<close> (once per output unit), so a shorter input is read out of
  range and the entries of a longer one beyond \<^verbatim>\<open>input_size_\<close> are never looked at.
\<close>

definition nl_forward :: "NeuralLayer \<Rightarrow> real list \<Rightarrow> error + (real list \<times> NeuralLayer)" where
  "nl_forward l input =
     (if 0 < nl_output_size l \<and> length input < nl_input_size l then Inl OutOfBounds
      else
        let preactivation =
              map (\<lambda>i. nl_biases l ! i
                        + (\<Sum>j\<leftarrow>[0..<nl_input_size l]. nl_weights l ! i ! j * input ! j))
                  [0..<nl_output_size l];
            output = map (nl_activation l) preactivation
        in Inr (output, l\<lparr>nl_last_input := input,
                           nl_last_preactivation := preactivation,
                           nl_last_output := output\<rparr>))"

text \<open>
  \<^verbatim>\<open>NeuralLayer::backward\<close>: the input gradient of column \<^verbatim>\<open>j\<close> is accumulated from
  each weight before that weight is updated.
\<close>

definition nl_backward :: "NeuralLayer \<Rightarrow> real list \<Rightarrow> real \<Rightarrow> error + (real list \<times> NeuralLayer)" where
  "nl_backward l output_gradient learning_rate =
     (if length output_gradient < nl_output_size l
         \<or> length (nl_last_preactivation l) < nl_output_size l
         \<or> (0 < nl_output_size l \<and> length (nl_last_input l) < nl_input_size l)
      then Inl OutOfBounds
      else
        let preact_gradient =
              map (\<lambda>i. output_gradient ! i
                        * nl_activation_derivative l (nl_last_preactivation l ! i))
                  [0..<nl_output_size l];
            input_gradient =
              map (\<lambda>j. \<Sum>i\<leftarrow>[0..<nl_output_size l]. preact_gradient ! i * nl_weights l ! i ! j)
                  [0..<nl_input_size l];
            weights' =
              map (\<lambda>i. map (\<lambda>j. nl_weights l ! i ! j
                                   - learning_rate * preact_gradient ! i * nl_last_input l ! j)
                            [0..<nl_input_size l])
                  [0..<nl_output_size l];
            biases' =
              map (\<lambda>i. nl_biases l ! i - learning_rate * preact_gradient ! i)
                  [0..<nl_output_size l]
        in Inr (input_gradient, l\<lparr>nl_weights := weights', nl_biases := biases'\<rparr>))"

record LearnableNetwork =
  ln_layers :: "NeuralLayer list"
  ln_learning_rate :: real

text \<open>\<^verbatim>\<open>LearnableNetwork::forward\<close>: the layers in order, each caching its pass.\<close>

fun forward_layers :: "NeuralLayer list \<Rightarrow> real list \<Rightarrow> error + (real list \<times> NeuralLayer list)" where
  "forward_layers [] current = Inr (current, [])"
| "forward_layers (l # ls) current =
     (case nl_forward l current of
        Inl e \<Rightarrow> Inl e
      | Inr (out, l') \<Rightarrow>
          (case forward_layers ls out of
             Inl e \<Rightarrow> Inl e
           | Inr (res, ls') \<Rightarrow> Inr (res, l' # ls')))"

definition ln_forward :: "LearnableNetwork \<Rightarrow> real list \<Rightarrow> error + (real list \<times> LearnableNetwork)" where
  "ln_forward net input =
     (case forward_layers (ln_layers net) input of
        Inl e \<Rightarrow> Inl e
      | Inr (res, ls') \<Rightarrow> Inr (res, net\<lparr>ln_layers := ls'\<rparr>))"

text \<open>
  \<^verbatim>\<open>LearnableNetwork::backward\<close> walks \<^verbatim>\<open>layers_.rbegin()\<close> to \<^verbatim>\<open>rend()\<close>:
  \<open>backward_layers\<close> takes the layers last first and returns them in that order.
\<close>

fun backward_layers :: "NeuralLayer list \<Rightarrow> real list \<Rightarrow> real \<Rightarrow> error + (real list \<times> NeuralLayer list)" where
  "backward_layers [] gradient lr = Inr (gradient, [])"
| "backward_layers (l # ls) gradient lr =
     (case nl_backward l gradient lr of
        Inl e \<Rightarrow> Inl e
      | Inr (g, l') \<Rightarrow>
          (case backward_layers ls g lr of
             Inl e \<Rightarrow> Inl e
           | Inr (res, ls') \<Rightarrow> Inr (res, l' # ls')))"

definition ln_backward :: "LearnableNetwork \<Rightarrow> real list \<Rightarrow> error + LearnableNetwork" where
  "ln_backward net output_gradient =
     (case backward_layers (rev (ln_layers net)) output_gradient (ln_learning_rate net) of
        Inl e \<Rightarrow> Inl e
      | Inr (g, ls') \<Rightarrow> Inr (net\<lparr>ln_layers := rev ls'\<rparr>))"

text \<open>
  \<^verbatim>\<open>LearnableNetwork::train\<close>: forward, the squared-error loss and its gradient,
  backward. It checks no length: \<^verbatim>\<open>target[i]\<close> is read for every index of the
  output.
\<close>

definition train :: "LearnableNetwork \<Rightarrow> real list \<Rightarrow> real list \<Rightarrow> error + (real \<times> LearnableNetwork)" where
  "train net input target =
     (case ln_forward net input of
        Inl e \<Rightarrow> Inl e
      | Inr (output, net1) \<Rightarrow>
          if length target < length output then Inl OutOfBounds
          else
            let gradient = map (\<lambda>i. 2 * (output ! i - target ! i) / real (length output))
                               [0..<length output];
                loss = (\<Sum>i\<leftarrow>[0..<length output].
                          (output ! i - target ! i) * (output ! i - target ! i))
                       / real (length output)
            in (case ln_backward net1 gradient of
                  Inl e \<Rightarrow> Inl e
                | Inr net2 \<Rightarrow> Inr (loss, net2)))"

section \<open>Embedding learner\<close>

record EmbeddingLearner =
  el_embedding_dim :: nat
  el_network :: LearnableNetwork

text \<open>The constructor: two layers, \<^verbatim>\<open>dim -> 2 dim -> dim\<close>; \<open>w1\<close> and \<open>w2\<close> are the
  weights drawn at random.\<close>

definition EmbeddingLearner_init :: "nat \<Rightarrow> real \<Rightarrow> real list list \<Rightarrow> real list list
    \<Rightarrow> EmbeddingLearner" where
  "EmbeddingLearner_init embedding_dim learning_rate w1 w2 =
     \<lparr>el_embedding_dim = embedding_dim,
      el_network =
        \<lparr>ln_layers = [NeuralLayer_init embedding_dim (embedding_dim * 2) w1,
                      NeuralLayer_init (embedding_dim * 2) embedding_dim w2],
         ln_learning_rate = learning_rate\<rparr>\<rparr>"

definition transform :: "EmbeddingLearner \<Rightarrow> TensorEmbedding \<Rightarrow> error + (TensorEmbedding \<times> EmbeddingLearner)" where
  "transform el input =
     (if te_dimensions input \<noteq> el_embedding_dim el
      then Inl (RuntimeError ''Input dimension mismatch'')
      else
        (case ln_forward (el_network el) (te_data input) of
           Inl e \<Rightarrow> Inl e
         | Inr (output, net') \<Rightarrow> Inr (TensorEmbedding_of output, el\<lparr>el_network := net'\<rparr>)))"

section \<open>Single-precision values\<close>

text \<open>
  The loss of \<^verbatim>\<open>learnFromSimilarity\<close> depends on what \<^verbatim>\<open>float\<close> arithmetic does
  beyond its range, so the learner that the facade owns is modelled over \<open>fval\<close>: a
  finite value (the real it denotes), the two infinities, or NaN. The operations
  follow IEEE 754 on the special values. On finite operands they give the exact
  result, or an infinity when the exact result rounds to one, which is when its
  magnitude is at least \<open>2 ^ 128 - 2 ^ 103\<close>. Rounding to 24 bits, underflow and the
  sign of zero are not modelled.
\<close>

datatype fval = Fin real | PInf | NInf | NaN

definition overflow_bound :: real where
  "overflow_bound = 2 ^ 128 - 2 ^ 103"

definition fl :: "real \<Rightarrow> fval" where
  "fl x = (if overflow_bound \<le> x then PInf else if x \<le> - overflow_bound then NInf else Fin x)"

fun f_neg :: "fval \<Rightarrow> fval" where
  "f_neg (Fin a) = Fin (- a)"
| "f_neg PInf = NInf"
| "f_neg NInf = PInf"
| "f_neg NaN = NaN"

fun f_add :: "fval \<Rightarrow> fval \<Rightarrow> fval" where
  "f_add (Fin a) (Fin b) = fl (a + b)"
| "f_add NaN y = NaN"
| "f_add x NaN = NaN"
| "f_add PInf NInf = NaN"
| "f_add NInf PInf = NaN"
| "f_add PInf y = PInf"
| "f_add x PInf = PInf"
| "f_add NInf y = NInf"
| "f_add x NInf = NInf"

definition f_sub :: "fval \<Rightarrow> fval \<Rightarrow> fval" where
  "f_sub x y = f_add x (f_neg y)"

fun f_mul :: "fval \<Rightarrow> fval \<Rightarrow> fval" where
  "f_mul (Fin a) (Fin b) = fl (a * b)"
| "f_mul NaN y = NaN"
| "f_mul x NaN = NaN"
| "f_mul (Fin a) PInf = (if a = 0 then NaN else if 0 < a then PInf else NInf)"
| "f_mul (Fin a) NInf = (if a = 0 then NaN else if 0 < a then NInf else PInf)"
| "f_mul PInf (Fin b) = (if b = 0 then NaN else if 0 < b then PInf else NInf)"
| "f_mul NInf (Fin b) = (if b = 0 then NaN else if 0 < b then NInf else PInf)"
| "f_mul PInf PInf = PInf"
| "f_mul PInf NInf = NInf"
| "f_mul NInf PInf = NInf"
| "f_mul NInf NInf = PInf"

fun f_div :: "fval \<Rightarrow> fval \<Rightarrow> fval" where
  "f_div (Fin a) (Fin b) =
     (if b = 0 then (if a = 0 then NaN else if 0 < a then PInf else NInf) else fl (a / b))"
| "f_div NaN y = NaN"
| "f_div x NaN = NaN"
| "f_div (Fin a) PInf = Fin 0"
| "f_div (Fin a) NInf = Fin 0"
| "f_div PInf (Fin b) = (if 0 \<le> b then PInf else NInf)"
| "f_div NInf (Fin b) = (if 0 \<le> b then NInf else PInf)"
| "f_div PInf PInf = NaN"
| "f_div PInf NInf = NaN"
| "f_div NInf PInf = NaN"
| "f_div NInf NInf = NaN"

fun f_sqrt :: "fval \<Rightarrow> fval" where
  "f_sqrt (Fin a) = (if a < 0 then NaN else Fin (sqrt a))"
| "f_sqrt PInf = PInf"
| "f_sqrt NInf = NaN"
| "f_sqrt NaN = NaN"

text \<open>The comparison \<^verbatim>\<open>x < y\<close>: false as soon as one side is NaN.\<close>

fun f_less :: "fval \<Rightarrow> fval \<Rightarrow> bool" where
  "f_less (Fin a) (Fin b) = (a < b)"
| "f_less NaN y = False"
| "f_less x NaN = False"
| "f_less x NInf = False"
| "f_less PInf y = False"
| "f_less NInf y = True"
| "f_less x PInf = True"

definition f_le :: "fval \<Rightarrow> fval \<Rightarrow> bool" where
  "f_le x y = (f_less x y \<or> (x = y \<and> x \<noteq> NaN))"

text \<open>\<^verbatim>\<open>std::pow(x, 2)\<close> on a \<^verbatim>\<open>float\<close>, stored in a \<^verbatim>\<open>float\<close>: the square is
  taken in \<^verbatim>\<open>double\<close>, where it cannot overflow, and overflows when narrowed.\<close>

definition f_pow2 :: "fval \<Rightarrow> fval" where
  "f_pow2 x = f_mul x x"

text \<open>\<^verbatim>\<open>std::max(0.0f, x)\<close> is \<^verbatim>\<open>(0.0f < x) ? x : 0.0f\<close>, so it is 0 at NaN.\<close>

definition relu_f :: "fval \<Rightarrow> fval" where
  "relu_f x = (if f_less (Fin 0) x then x else Fin 0)"

definition reluDerivative_f :: "fval \<Rightarrow> fval" where
  "reluDerivative_f x = (if f_less (Fin 0) x then Fin 1 else Fin 0)"

section \<open>The learner in single precision\<close>

text \<open>
  \<^verbatim>\<open>TensorEmbedding\<close>, \<^verbatim>\<open>NeuralLayer\<close>, \<^verbatim>\<open>LearnableNetwork\<close> and
  \<^verbatim>\<open>EmbeddingLearner\<close> once more, over \<open>fval\<close>, for the learning path of the
  facade: each sum is accumulated in the order of its loop, since the addition of
  \<open>fval\<close> is not associative. The length and dimension checks do not depend on the
  arithmetic; they are stated on the model over the reals above.
\<close>

record TensorEmbeddingF =
  tef_data :: "fval list"
  tef_dimensions :: nat

definition TensorEmbeddingF_of :: "fval list \<Rightarrow> TensorEmbeddingF" where
  "TensorEmbeddingF_of v = \<lparr>tef_data = v, tef_dimensions = length v\<rparr>"

text \<open>A stored embedding, whose components are finite, as the learner receives it.\<close>

definition te_float :: "TensorEmbedding \<Rightarrow> TensorEmbeddingF" where
  "te_float e = \<lparr>tef_data = map Fin (te_data e), tef_dimensions = te_dimensions e\<rparr>"

text \<open>\<^verbatim>\<open>cosineSimilarity\<close>: the three accumulators start at \<^verbatim>\<open>0.0f\<close>; a NaN
  denominator passes the test \<^verbatim>\<open>denominator < 1e-8f\<close>.\<close>

definition tef_cosineSimilarity :: "TensorEmbeddingF \<Rightarrow> TensorEmbeddingF \<Rightarrow> fval" where
  "tef_cosineSimilarity a b =
     (if tef_dimensions a \<noteq> tef_dimensions b \<or> tef_dimensions a = 0 then Fin 0
      else
        let dot_product =
              foldl (\<lambda>acc i. f_add acc (f_mul (tef_data a ! i) (tef_data b ! i)))
                (Fin 0) [0..<tef_dimensions a];
            norm_a =
              foldl (\<lambda>acc i. f_add acc (f_mul (tef_data a ! i) (tef_data a ! i)))
                (Fin 0) [0..<tef_dimensions a];
            norm_b =
              foldl (\<lambda>acc i. f_add acc (f_mul (tef_data b ! i) (tef_data b ! i)))
                (Fin 0) [0..<tef_dimensions a];
            denominator = f_mul (f_sqrt norm_a) (f_sqrt norm_b)
        in if f_less denominator (Fin (1 / 10 ^ 8)) then Fin 0
           else f_div dot_product denominator)"

record NeuralLayerF =
  nlf_input_size :: nat
  nlf_output_size :: nat
  nlf_weights :: "fval list list"
  nlf_biases :: "fval list"
  nlf_activation :: "fval \<Rightarrow> fval"
  nlf_activation_derivative :: "fval \<Rightarrow> fval"
  nlf_last_input :: "fval list"
  nlf_last_output :: "fval list"
  nlf_last_preactivation :: "fval list"

definition NeuralLayerF_init :: "nat \<Rightarrow> nat \<Rightarrow> fval list list \<Rightarrow> NeuralLayerF" where
  "NeuralLayerF_init input_size output_size drawn =
     \<lparr>nlf_input_size = input_size, nlf_output_size = output_size,
      nlf_weights = drawn, nlf_biases = replicate output_size (Fin (1 / 100)),
      nlf_activation = relu_f, nlf_activation_derivative = reluDerivative_f,
      nlf_last_input = [], nlf_last_output = [], nlf_last_preactivation = []\<rparr>"

definition layer_shapedF :: "NeuralLayerF \<Rightarrow> bool" where
  "layer_shapedF l =
     (length (nlf_weights l) = nlf_output_size l
      \<and> list_all (\<lambda>row. length row = nlf_input_size l) (nlf_weights l)
      \<and> length (nlf_biases l) = nlf_output_size l)"

text \<open>\<^verbatim>\<open>NeuralLayer::forward\<close>: \<^verbatim>\<open>sum\<close> starts at the bias and takes the products
  for \<^verbatim>\<open>j = 0, 1, ...\<close> in turn.\<close>

definition nlf_forward :: "NeuralLayerF \<Rightarrow> fval list \<Rightarrow> error + (fval list \<times> NeuralLayerF)" where
  "nlf_forward l input =
     (if 0 < nlf_output_size l \<and> length input < nlf_input_size l then Inl OutOfBounds
      else
        let preactivation =
              map (\<lambda>i. foldl (\<lambda>acc j. f_add acc (f_mul (nlf_weights l ! i ! j) (input ! j)))
                          (nlf_biases l ! i) [0..<nlf_input_size l])
                  [0..<nlf_output_size l];
            output = map (nlf_activation l) preactivation
        in Inr (output, l\<lparr>nlf_last_input := input,
                           nlf_last_preactivation := preactivation,
                           nlf_last_output := output\<rparr>))"

text \<open>
  \<^verbatim>\<open>NeuralLayer::backward\<close>: \<^verbatim>\<open>input_gradient[j]\<close> starts at \<^verbatim>\<open>0.0f\<close> and takes
  the term of each output unit \<^verbatim>\<open>i = 0, 1, ...\<close> in turn, read from the weight before
  its update; the update subtracts \<^verbatim>\<open>(learning_rate * preact_gradient[i]) * last_input_[j]\<close>.
\<close>

definition nlf_backward :: "NeuralLayerF \<Rightarrow> fval list \<Rightarrow> fval \<Rightarrow> error + (fval list \<times> NeuralLayerF)" where
  "nlf_backward l output_gradient learning_rate =
     (if length output_gradient < nlf_output_size l
         \<or> length (nlf_last_preactivation l) < nlf_output_size l
         \<or> (0 < nlf_output_size l \<and> length (nlf_last_input l) < nlf_input_size l)
      then Inl OutOfBounds
      else
        let preact_gradient =
              map (\<lambda>i. f_mul (output_gradient ! i)
                          (nlf_activation_derivative l (nlf_last_preactivation l ! i)))
                  [0..<nlf_output_size l];
            input_gradient =
              map (\<lambda>j. foldl (\<lambda>acc i. f_add acc (f_mul (preact_gradient ! i) (nlf_weights l ! i ! j)))
                          (Fin 0) [0..<nlf_output_size l])
                  [0..<nlf_input_size l];
            weights' =
              map (\<lambda>i. map (\<lambda>j. f_sub (nlf_weights l ! i ! j)
                                   (f_mul (f_mul learning_rate (preact_gradient ! i))
                                      (nlf_last_input l ! j)))
                            [0..<nlf_input_size l])
                  [0..<nlf_output_size l];
            biases' =
              map (\<lambda>i. f_sub (nlf_biases l ! i) (f_mul learning_rate (preact_gradient ! i)))
                  [0..<nlf_output_size l]
        in Inr (input_gradient, l\<lparr>nlf_weights := weights', nlf_biases := biases'\<rparr>))"

record LearnableNetworkF =
  lnf_layers :: "NeuralLayerF list"
  lnf_learning_rate :: fval

fun forward_layersF :: "NeuralLayerF list \<Rightarrow> fval list \<Rightarrow> error + (fval list \<times> NeuralLayerF list)" where
  "forward_layersF [] current = Inr (current, [])"
| "forward_layersF (l # ls) current =
     (case nlf_forward l current of
        Inl e \<Rightarrow> Inl e
      | Inr (out, l') \<Rightarrow>
          (case forward_layersF ls out of
             Inl e \<Rightarrow> Inl e
           | Inr (res, ls') \<Rightarrow> Inr (res, l' # ls')))"

definition lnf_forward :: "LearnableNetworkF \<Rightarrow> fval list \<Rightarrow> error + (fval list \<times> LearnableNetworkF)" where
  "lnf_forward net input =
     (case forward_layersF (lnf_layers net) input of
        Inl e \<Rightarrow> Inl e
      | Inr (res, ls') \<Rightarrow> Inr (res, net\<lparr>lnf_layers := ls'\<rparr>))"

fun backward_layersF :: "NeuralLayerF list \<Rightarrow> fval list \<Rightarrow> fval \<Rightarrow> error + (fval list \<times> NeuralLayerF list)" where
  "backward_layersF [] gradient lr = Inr (gradient, [])"
| "backward_layersF (l # ls) gradient lr =
     (case nlf_backward l gradient lr of
        Inl e \<Rightarrow> Inl e
      | Inr (g, l') \<Rightarrow>
          (case backward_layersF ls g lr of
             Inl e \<Rightarrow> Inl e
           | Inr (res, ls') \<Rightarrow> Inr (res, l' # ls')))"

definition lnf_backward :: "LearnableNetworkF \<Rightarrow> fval list \<Rightarrow> error + LearnableNetworkF" where
  "lnf_backward net output_gradient =
     (case backward_layersF (rev (lnf_layers net)) output_gradient (lnf_learning_rate net) of
        Inl e \<Rightarrow> Inl e
      | Inr (g, ls') \<Rightarrow> Inr (net\<lparr>lnf_layers := rev ls'\<rparr>))"

text \<open>\<^verbatim>\<open>LearnableNetwork::train\<close>: \<^verbatim>\<open>gradient[i] = (2.0f * error) / output.size()\<close>,
  and \<^verbatim>\<open>loss\<close> starts at \<^verbatim>\<open>0.0f\<close>.\<close>

definition trainF :: "LearnableNetworkF \<Rightarrow> fval list \<Rightarrow> fval list \<Rightarrow> error + (fval \<times> LearnableNetworkF)" where
  "trainF net input target =
     (case lnf_forward net input of
        Inl e \<Rightarrow> Inl e
      | Inr (output, net1) \<Rightarrow>
          if length target < length output then Inl OutOfBounds
          else
            let gradient =
                  map (\<lambda>i. f_div (f_mul (Fin 2) (f_sub (output ! i) (target ! i)))
                             (Fin (real (length output))))
                      [0..<length output];
                loss =
                  f_div (foldl (\<lambda>acc i. f_add acc (f_mul (f_sub (output ! i) (target ! i))
                                                     (f_sub (output ! i) (target ! i))))
                           (Fin 0) [0..<length output])
                    (Fin (real (length output)))
            in (case lnf_backward net1 gradient of
                  Inl e \<Rightarrow> Inl e
                | Inr net2 \<Rightarrow> Inr (loss, net2)))"

record EmbeddingLearnerF =
  elf_embedding_dim :: nat
  elf_network :: LearnableNetworkF

definition EmbeddingLearnerF_init :: "nat \<Rightarrow> fval \<Rightarrow> fval list list \<Rightarrow> fval list list
    \<Rightarrow> EmbeddingLearnerF" where
  "EmbeddingLearnerF_init embedding_dim learning_rate w1 w2 =
     \<lparr>elf_embedding_dim = embedding_dim,
      elf_network =
        \<lparr>lnf_layers = [NeuralLayerF_init embedding_dim (embedding_dim * 2) w1,
                       NeuralLayerF_init (embedding_dim * 2) embedding_dim w2],
         lnf_learning_rate = learning_rate\<rparr>\<rparr>"

definition transformF :: "EmbeddingLearnerF \<Rightarrow> TensorEmbeddingF
    \<Rightarrow> error + (TensorEmbeddingF \<times> EmbeddingLearnerF)" where
  "transformF el input =
     (if tef_dimensions input \<noteq> elf_embedding_dim el
      then Inl (RuntimeError ''Input dimension mismatch'')
      else
        (case lnf_forward (elf_network el) (tef_data input) of
           Inl e \<Rightarrow> Inl e
         | Inr (output, net') \<Rightarrow> Inr (TensorEmbeddingF_of output, el\<lparr>elf_network := net'\<rparr>)))"

text \<open>
  \<^verbatim>\<open>learnFromSimilarity\<close>: the loss is \<^verbatim>\<open>std::pow(current - target, 2)\<close>, taken
  before the one \<^verbatim>\<open>train\<close> step; the loop over \<^verbatim>\<open>i < embedding_dim_\<close> indexes
  \<^verbatim>\<open>target1\<close> and both transformed vectors.
\<close>

definition learnFromSimilarity :: "EmbeddingLearnerF \<Rightarrow> TensorEmbeddingF \<Rightarrow> TensorEmbeddingF \<Rightarrow> fval
    \<Rightarrow> error + (fval \<times> EmbeddingLearnerF)" where
  "learnFromSimilarity el embedding1 embedding2 target_similarity =
     (case transformF el embedding1 of
        Inl e \<Rightarrow> Inl e
      | Inr (transformed1, el1) \<Rightarrow>
          (case transformF el1 embedding2 of
             Inl e \<Rightarrow> Inl e
           | Inr (transformed2, el2) \<Rightarrow>
               let current_similarity = tef_cosineSimilarity transformed1 transformed2;
                   loss = f_pow2 (f_sub current_similarity target_similarity);
                   adjustment = f_mul (f_sub target_similarity current_similarity) (Fin (1 / 10))
               in if length (tef_data embedding1) < elf_embedding_dim el
                     \<or> length (tef_data transformed1) < elf_embedding_dim el
                     \<or> length (tef_data transformed2) < elf_embedding_dim el
                  then Inl OutOfBounds
                  else
                    let target1 =
                          map (\<lambda>i. f_add (tef_data embedding1 ! i)
                                      (f_mul adjustment
                                         (f_sub (tef_data transformed2 ! i) (tef_data transformed1 ! i))))
                              [0..<elf_embedding_dim el]
                          @ drop (elf_embedding_dim el) (tef_data embedding1)
                    in (case trainF (elf_network el2) (tef_data embedding1) target1 of
                          Inl e \<Rightarrow> Inl e
                        | Inr (l, net') \<Rightarrow> Inr (loss, el2\<lparr>elf_network := net'\<rparr>))))"

section \<open>Agents and the orchestrator\<close>

datatype AgentState = IDLE | THINKING | ACTING | LEARNING | COMMUNICATING | SUSPENDED | TERMINATED

record AgentMessage =
  am_from :: string
  am_to :: string
  am_type :: string
  am_content :: string
  am_timestamp :: "64 word"

text \<open>
  The fields of the base class \<^verbatim>\<open>Agent\<close>; \<^verbatim>\<open>message_queue_\<close> is a
  \<^verbatim>\<open>std::queue\<close>, front first. The back pointer \<^verbatim>\<open>orchestrator_\<close> is written by
  \<^verbatim>\<open>registerAgent\<close> and never read, and is left out.
\<close>

record Agent =
  ag_id :: string
  ag_name :: string
  ag_state :: AgentState
  ag_message_queue :: "AgentMessage list"

definition Agent_init :: "string \<Rightarrow> string \<Rightarrow> Agent" where
  "Agent_init ident name = \<lparr>ag_id = ident, ag_name = name, ag_state = IDLE, ag_message_queue = []\<rparr>"

text \<open>
  Agents are shared objects (\<^verbatim>\<open>std::shared_ptr<Agent>\<close>): the same agent can be
  registered more than once and is also held by its creator. The model keeps the
  agent objects in a heap indexed by address; the orchestrator's \<^verbatim>\<open>agents_\<close> is a
  list of addresses (never null: \<^verbatim>\<open>registerAgent\<close> dereferences its argument).
\<close>

type_synonym AgentPtr = nat
type_synonym AgentHeap = "AgentPtr \<Rightarrow> Agent"

record AgentOrchestrator =
  ao_agents :: "AgentPtr list"
  ao_running :: bool

definition AgentOrchestrator_init :: AgentOrchestrator where
  "AgentOrchestrator_init = \<lparr>ao_agents = [], ao_running = False\<rparr>"

definition receiveMessage :: "AgentHeap \<Rightarrow> AgentPtr \<Rightarrow> AgentMessage \<Rightarrow> AgentHeap" where
  "receiveMessage heap a message =
     heap(a := (heap a)\<lparr>ag_message_queue := ag_message_queue (heap a) @ [message]\<rparr>)"

definition hasMessages :: "AgentHeap \<Rightarrow> AgentPtr \<Rightarrow> bool" where
  "hasMessages heap a = (ag_message_queue (heap a) \<noteq> [])"

definition getNextMessage :: "AgentHeap \<Rightarrow> AgentPtr \<Rightarrow> error + (AgentMessage \<times> AgentHeap)" where
  "getNextMessage heap a =
     (case ag_message_queue (heap a) of
        [] \<Rightarrow> Inl (RuntimeError ''No messages available'')
      | msg # rest \<Rightarrow> Inr (msg, heap(a := (heap a)\<lparr>ag_message_queue := rest\<rparr>)))"

definition registerAgent :: "AgentOrchestrator \<Rightarrow> AgentPtr \<Rightarrow> AgentOrchestrator" where
  "registerAgent ao agent = ao\<lparr>ao_agents := ao_agents ao @ [agent]\<rparr>"

text \<open>\<^verbatim>\<open>getAgent\<close>: the first registered agent with the id, or \<^verbatim>\<open>nullptr\<close>.\<close>

fun first_with_id :: "AgentHeap \<Rightarrow> string \<Rightarrow> AgentPtr list \<Rightarrow> AgentPtr option" where
  "first_with_id heap agent_id [] = None"
| "first_with_id heap agent_id (a # rest) =
     (if ag_id (heap a) = agent_id then Some a else first_with_id heap agent_id rest)"

definition getAgent :: "AgentOrchestrator \<Rightarrow> AgentHeap \<Rightarrow> string \<Rightarrow> AgentPtr option" where
  "getAgent ao heap agent_id = first_with_id heap agent_id (ao_agents ao)"

definition sendMessage :: "AgentOrchestrator \<Rightarrow> AgentHeap \<Rightarrow> AgentMessage \<Rightarrow> AgentHeap" where
  "sendMessage ao heap message =
     (case getAgent ao heap (am_to message) of
        None \<Rightarrow> heap
      | Some recipient \<Rightarrow> receiveMessage heap recipient message)"

section \<open>Fusion facade (CognitiveFusionReactor)\<close>

record AttentionValue =
  sti :: real
  lti :: real
  vlti :: real

text \<open>
  \<^verbatim>\<open>relevance_scores_\<close> is only looked up; \<^verbatim>\<open>attention_bank_\<close> is iterated by
  \<^verbatim>\<open>spreadAttention\<close>.
\<close>

record CognitiveFusionReactor =
  cfr_atomspace :: AtomSpace
  cfr_embedding_space :: EmbeddingSpace
  cfr_learner :: EmbeddingLearnerF
  cfr_orchestrator :: AgentOrchestrator
  cfr_embedding_dim :: nat
  cfr_learning_rate :: real
  cfr_relevance_scores :: "AtomHandle \<Rightarrow> real option"
  cfr_attention_bank :: "(AtomHandle \<times> AttentionValue) list"

definition CognitiveFusionReactor_init :: "nat \<Rightarrow> real \<Rightarrow> real list list \<Rightarrow> real list list
    \<Rightarrow> CognitiveFusionReactor" where
  "CognitiveFusionReactor_init embedding_dim learning_rate w1 w2 =
     \<lparr>cfr_atomspace = AtomSpace_init,
      cfr_embedding_space = EmbeddingSpace_init embedding_dim,
      cfr_learner =
        EmbeddingLearnerF_init embedding_dim (Fin learning_rate)
          (map (map Fin) w1) (map (map Fin) w2),
      cfr_orchestrator = AgentOrchestrator_init,
      cfr_embedding_dim = embedding_dim,
      cfr_learning_rate = learning_rate,
      cfr_relevance_scores = (\<lambda>h. None),
      cfr_attention_bank = []\<rparr>"

text \<open>\<^verbatim>\<open>std::clamp(v, lo, hi)\<close>.\<close>

definition clamp :: "real \<Rightarrow> real \<Rightarrow> real \<Rightarrow> real" where
  "clamp v lo hi = (if v < lo then lo else if hi < v then hi else v)"

definition setRelevance :: "CognitiveFusionReactor \<Rightarrow> AtomHandle \<Rightarrow> real \<Rightarrow> CognitiveFusionReactor" where
  "setRelevance r handle relevance =
     r\<lparr>cfr_relevance_scores := (cfr_relevance_scores r)(handle := Some (clamp relevance 0 1))\<rparr>"

definition getRelevance :: "CognitiveFusionReactor \<Rightarrow> AtomHandle \<Rightarrow> real" where
  "getRelevance r handle =
     (case cfr_relevance_scores r handle of Some v \<Rightarrow> v | None \<Rightarrow> 1 / 2)"

definition setAttention :: "CognitiveFusionReactor \<Rightarrow> AtomHandle \<Rightarrow> AttentionValue \<Rightarrow> CognitiveFusionReactor" where
  "setAttention r handle attention =
     r\<lparr>cfr_attention_bank := AList.update handle attention (cfr_attention_bank r)\<rparr>"

definition getAttention :: "CognitiveFusionReactor \<Rightarrow> AtomHandle \<Rightarrow> AttentionValue" where
  "getAttention r handle =
     (case map_of (cfr_attention_bank r) handle of
        Some a \<Rightarrow> a
      | None \<Rightarrow> \<lparr>sti = 1 / 2, lti = 1 / 2, vlti = 1 / 2\<rparr>)"


text \<open>
  \<^verbatim>\<open>spreadAttention\<close>. The first loop collects the handles with \<^verbatim>\<open>sti > 0.7f\<close>
  before anything is written. In the second, \<^verbatim>\<open>attention_bank_[h]\<close> creates a
  missing entry value-initialised, that is \<^verbatim>\<open>{0, 0, 0}\<close>, and its \<^verbatim>\<open>sti\<close> becomes
  \<^verbatim>\<open>std::min(1.0f, sti + 0.1f)\<close>.
\<close>

definition high_attention :: "(AtomHandle \<times> AttentionValue) list \<Rightarrow> AtomHandle list" where
  "high_attention bank = map fst (filter (\<lambda>(handle, attention). sti attention > 7 / 10) bank)"

definition bank_entry :: "(AtomHandle \<times> AttentionValue) list \<Rightarrow> AtomHandle \<Rightarrow> AttentionValue" where
  "bank_entry bank h =
     (case map_of bank h of Some a \<Rightarrow> a | None \<Rightarrow> \<lparr>sti = 0, lti = 0, vlti = 0\<rparr>)"

definition raise_sti :: "AtomHandle \<Rightarrow> (AtomHandle \<times> AttentionValue) list
    \<Rightarrow> (AtomHandle \<times> AttentionValue) list" where
  "raise_sti target bank =
     AList.update target
       ((bank_entry bank target)\<lparr>sti := min 1 (sti (bank_entry bank target) + 1 / 10)\<rparr>) bank"

definition spread_from :: "AtomSpace \<Rightarrow> AtomHandle \<Rightarrow> (AtomHandle \<times> AttentionValue) list
    \<Rightarrow> (AtomHandle \<times> AttentionValue) list" where
  "spread_from s handle bank =
     (case getAtom s handle of
        None \<Rightarrow> bank
      | Some atom \<Rightarrow> if isLink atom then fold raise_sti (getOutgoing atom) bank else bank)"

definition spreadAttention :: "CognitiveFusionReactor \<Rightarrow> CognitiveFusionReactor" where
  "spreadAttention r =
     r\<lparr>cfr_attention_bank :=
         fold (spread_from (cfr_atomspace r)) (high_attention (cfr_attention_bank r))
           (cfr_attention_bank r)\<rparr>"

text \<open>
  \<^verbatim>\<open>addConcept\<close>: the node is created or reused, the embedding is stored in the
  embedding space when it is non-empty and of the facade's dimension, and relevance
  and attention of the node's handle are set. (\<^verbatim>\<open>addEmbedding\<close> can throw here only
  if the space's dimension differed from \<^verbatim>\<open>embedding_dim_\<close>; the constructor sets
  both from the same argument.)
\<close>

definition addConcept :: "CognitiveFusionReactor \<Rightarrow> string \<Rightarrow> real list
    \<Rightarrow> error + (Atom \<times> CognitiveFusionReactor)" where
  "addConcept r name embedding =
     (case addNode (cfr_atomspace r) name embedding of
        Inl e \<Rightarrow> Inl e
      | Inr (node, s') \<Rightarrow>
          (case (if embedding \<noteq> [] \<and> length embedding = cfr_embedding_dim r
                 then addEmbedding (cfr_embedding_space r) name (TensorEmbedding_of embedding)
                 else Inr (cfr_embedding_space r)) of
             Inl e \<Rightarrow> Inl e
           | Inr es' \<Rightarrow>
               Inr (node,
                    setAttention
                      (setRelevance (r\<lparr>cfr_atomspace := s', cfr_embedding_space := es'\<rparr>)
                         (getHandle node) (1 / 2))
                      (getHandle node) \<lparr>sti = 1 / 2, lti = 1 / 2, vlti = 1 / 2\<rparr>)))"

definition addRelation :: "CognitiveFusionReactor \<Rightarrow> string \<Rightarrow> AtomHandle list
    \<Rightarrow> Atom \<times> CognitiveFusionReactor" where
  "addRelation r type outgoing =
     (case addLink (cfr_atomspace r) type outgoing of
        (link, s') \<Rightarrow> (link, setRelevance (r\<lparr>cfr_atomspace := s'\<rparr>) (getHandle link) (1 / 2)))"

text \<open>\<^verbatim>\<open>learnSimilarity\<close>: the sentinel \<^verbatim>\<open>-1.0f\<close> when either lookup returns
  \<^verbatim>\<open>nullptr\<close>.\<close>

definition learnSimilarity :: "CognitiveFusionReactor \<Rightarrow> string \<Rightarrow> string \<Rightarrow> fval
    \<Rightarrow> error + (fval \<times> CognitiveFusionReactor)" where
  "learnSimilarity r concept1 concept2 target_similarity =
     (case (getEmbedding (cfr_embedding_space r) concept1,
            getEmbedding (cfr_embedding_space r) concept2) of
        (Some emb1, Some emb2) \<Rightarrow>
          (case learnFromSimilarity (cfr_learner r) (te_float emb1) (te_float emb2)
                  target_similarity of
             Inl e \<Rightarrow> Inl e
           | Inr (loss, el') \<Rightarrow> Inr (loss, r\<lparr>cfr_learner := el'\<rparr>))
      | _ \<Rightarrow> Inr (Fin (- 1), r))"

section \<open>Notions used in the statements\<close>

text \<open>
  \<open>getNextMessages n\<close> is \<open>n\<close> successive calls of \<^verbatim>\<open>getNextMessage\<close> on one agent,
  collecting the messages in the order returned (the loop of \<^verbatim>\<open>processMessages\<close>
  with a bound).
\<close>

fun getNextMessages :: "nat \<Rightarrow> AgentHeap \<Rightarrow> AgentPtr \<Rightarrow> error + (AgentMessage list \<times> AgentHeap)" where
  "getNextMessages 0 heap a = Inr ([], heap)"
| "getNextMessages (Suc n) heap a =
     (case getNextMessage heap a of
        Inl e \<Rightarrow> Inl e
      | Inr (msg, heap') \<Rightarrow>
          (case getNextMessages n heap' a of
             Inl e \<Rightarrow> Inl e
           | Inr (msgs, heap'') \<Rightarrow> Inr (msg # msgs, heap'')))"


text \<open>Every stored embedding has the dimension of the space.\<close>

definition es_stored_ok :: "EmbeddingSpace \<Rightarrow> bool" where
  "es_stored_ok es =
     list_all (\<lambda>(ident, e). te_dimensions e = es_dimensions es \<and> length (te_data e) = es_dimensions es)
       (es_embeddings es)"



text \<open>
  The handles that one \<^verbatim>\<open>spreadAttention\<close> call raises, with repetitions: the
  outgoing lists of the collected handles that are links of the store, in the order
  the second loop visits them. \<open>raise_step\<close> is one \<^verbatim>\<open>std::min(1.0f, sti + 0.1f)\<close>.
\<close>

definition link_targets :: "AtomSpace \<Rightarrow> AtomHandle \<Rightarrow> AtomHandle list" where
  "link_targets s handle =
     (case getAtom s handle of
        None \<Rightarrow> []
      | Some atom \<Rightarrow> if isLink atom then getOutgoing atom else [])"

definition spread_targets :: "CognitiveFusionReactor \<Rightarrow> AtomHandle list" where
  "spread_targets r =
     concat (map (link_targets (cfr_atomspace r)) (high_attention (cfr_attention_bank r)))"

definition raise_step :: "real \<Rightarrow> real" where
  "raise_step x = min 1 (x + 1 / 10)"

text \<open>
  The shape the \<^verbatim>\<open>EmbeddingLearner\<close> constructor gives its network and no member
  changes: two layers \<open>d -> 2 d -> d\<close> with weights and biases of matching shape
  (\<open>network_okF\<close> for the learner in single precision). \<open>reactor_ok\<close> adds what the
  facade's constructor establishes: the embedding space and the learner have the
  facade's dimension, and every stored embedding has it.
\<close>

definition network_ok :: "nat \<Rightarrow> LearnableNetwork \<Rightarrow> bool" where
  "network_ok d net =
     (case ln_layers net of
        [l1, l2] \<Rightarrow>
          nl_input_size l1 = d \<and> nl_output_size l1 = d * 2
          \<and> nl_input_size l2 = d * 2 \<and> nl_output_size l2 = d
          \<and> layer_shaped l1 \<and> layer_shaped l2
      | _ \<Rightarrow> False)"

definition network_okF :: "nat \<Rightarrow> LearnableNetworkF \<Rightarrow> bool" where
  "network_okF d net =
     (case lnf_layers net of
        [l1, l2] \<Rightarrow>
          nlf_input_size l1 = d \<and> nlf_output_size l1 = d * 2
          \<and> nlf_input_size l2 = d * 2 \<and> nlf_output_size l2 = d
          \<and> layer_shapedF l1 \<and> layer_shapedF l2
      | _ \<Rightarrow> False)"

definition reactor_ok :: "CognitiveFusionReactor \<Rightarrow> bool" where
  "reactor_ok r =
     (es_stored_ok (cfr_embedding_space r)
      \<and> es_dimensions (cfr_embedding_space r) = cfr_embedding_dim r
      \<and> elf_embedding_dim (cfr_learner r) = cfr_embedding_dim r
      \<and> network_okF (cfr_embedding_dim r) (elf_network (cfr_learner r)))"

section \<open>Example states\<close>

text \<open>A facade of dimension 2 with fixed weights in place of the random draw.\<close>

definition example_reactor :: CognitiveFusionReactor where
  "example_reactor =
     CognitiveFusionReactor_init 2 (1 / 100)
       [[1, 0], [0, 1], [1, 1], [0, 0]] [[1, 0, 0, 0], [0, 1, 0, 0]]"

text \<open>Link L (handle 3) at sti 0.8 over A and B (handles 1, 2) at sti 0.2.\<close>

definition spread_example :: CognitiveFusionReactor where
  "spread_example =
     (let r1 = snd (projr (addConcept example_reactor ''A'' []));
          r2 = snd (projr (addConcept r1 ''B'' []));
          r3 = snd (addRelation r2 ''SimilarityLink'' [1, 2]);
          r4 = setAttention r3 1 \<lparr>sti = 2 / 10, lti = 1 / 2, vlti = 1 / 2\<rparr>;
          r5 = setAttention r4 2 \<lparr>sti = 2 / 10, lti = 1 / 2, vlti = 1 / 2\<rparr>
      in setAttention r5 3 \<lparr>sti = 8 / 10, lti = 1 / 2, vlti = 1 / 2\<rparr>)"

text \<open>Nested links: handle 2 links A, handle 3 links handle 2; both links at sti 0.8.\<close>

definition nested_link_example :: CognitiveFusionReactor where
  "nested_link_example =
     (let r1 = snd (projr (addConcept example_reactor ''A'' []));
          r2 = snd (addRelation r1 ''inner'' [1]);
          r3 = snd (addRelation r2 ''outer'' [2]);
          r4 = setAttention r3 2 \<lparr>sti = 8 / 10, lti = 1 / 2, vlti = 1 / 2\<rparr>
      in setAttention r4 3 \<lparr>sti = 8 / 10, lti = 1 / 2, vlti = 1 / 2\<rparr>)"

text \<open>
  A relation over the concept A (handle 2; \<^verbatim>\<open>addRelation\<close> gives a link no attention
  entry) that is the outgoing atom of one link at sti 0.8 (handle 3), and the same
  with a second link at sti 0.8 over it (handle 4).
\<close>

definition unset_target_example :: CognitiveFusionReactor where
  "unset_target_example =
     (let r1 = snd (projr (addConcept example_reactor ''A'' []));
          r2 = snd (addRelation r1 ''inner'' [1]);
          r3 = snd (addRelation r2 ''outer'' [2])
      in setAttention r3 3 \<lparr>sti = 8 / 10, lti = 1 / 2, vlti = 1 / 2\<rparr>)"

definition double_target_example :: CognitiveFusionReactor where
  "double_target_example =
     (let r1 = snd (addRelation unset_target_example ''other'' [2])
      in setAttention r1 4 \<lparr>sti = 8 / 10, lti = 1 / 2, vlti = 1 / 2\<rparr>)"

text \<open>The agents and the message of \<^verbatim>\<open>test_agent_orchestrator\<close>.\<close>

definition example_heap :: AgentHeap where
  "example_heap =
     (\<lambda>a. Agent_init ''unused'' ''unused'')
       (0 := Agent_init ''test_agent'' ''Test Agent'', 1 := Agent_init ''agent2'' ''Agent 2'')"

definition example_orchestrator :: AgentOrchestrator where
  "example_orchestrator = registerAgent (registerAgent AgentOrchestrator_init 0) 1"

definition example_message :: AgentMessage where
  "example_message =
     \<lparr>am_from = ''test_agent'', am_to = ''agent2'', am_type = ''test'', am_content = ''hello'',
      am_timestamp = 0\<rparr>"

text \<open>A store and an embedding space with unit vectors, a vector of another
  dimension and a zero vector.\<close>

definition knn_store :: AtomSpace where
  "knn_store =
     (let s1 = snd (projr (addNode AtomSpace_init ''cat'' [1, 0]));
          s2 = snd (projr (addNode s1 ''dog'' [0, 1]));
          s3 = snd (projr (addNode s2 ''odd'' [1]))
      in snd (projr (addNode s3 ''zero'' [0, 0])))"

definition knn_space :: EmbeddingSpace where
  "knn_space =
     (let e1 = projr (addEmbedding (EmbeddingSpace_init 2) ''cat'' (TensorEmbedding_of [1, 0]))
      in projr (addEmbedding e1 ''dog'' (TensorEmbedding_of [0, 1])))"


text \<open>A store in which a link of type \<^verbatim>\<open>"x"\<close> was added first, and the store
  after a node of that name was added to it.\<close>

definition link_first_store :: AtomSpace where
  "link_first_store = snd (addLink AtomSpace_init ''x'' [])"

definition link_then_node_store :: AtomSpace where
  "link_then_node_store =
     \<lparr>as_atoms = [(1, Link 1 ''x'' initial_truth_value []), (2, Node 2 ''x'' initial_truth_value [])],
      as_name_index = (\<lambda>n. None)(''x'' := Some [1, 2]),
      as_next_handle = 2\<rparr>"

text \<open>A learner of dimension 2 with fixed weights.\<close>

definition example_learner :: EmbeddingLearner where
  "example_learner =
     EmbeddingLearner_init 2 (1 / 100) [[1, 0], [0, 1], [1, 1], [0, 0]] [[1, 0, 0, 0], [0, 1, 0, 0]]"

text \<open>A network with one layer of one input and one output (weight 1, bias 0.01).\<close>

definition tiny_network :: LearnableNetwork where
  "tiny_network = \<lparr>ln_layers = [NeuralLayer_init 1 1 [[1]]], ln_learning_rate = 1 / 100\<rparr>"

text \<open>A node "x" added without an embedding, then added again with one.\<close>

definition late_embedding_example :: CognitiveFusionReactor where
  "late_embedding_example = snd (projr (addConcept example_reactor ''x'' []))"

text \<open>The concept "cat" added with an embedding, its relevance and attention then set
  by the caller.\<close>

definition readd_example :: CognitiveFusionReactor where
  "readd_example =
     (let r1 = snd (projr (addConcept example_reactor ''cat'' [8 / 10, 2 / 10]));
          r2 = setRelevance r1 1 (9 / 10)
      in setAttention r2 1 \<lparr>sti = 8 / 10, lti = 6 / 10, vlti = 4 / 10\<rparr>)"

text \<open>The concepts "big" and "huge", both with the embedding \<open>(10 ^ 20, 0)\<close>.\<close>

definition overflow_example :: CognitiveFusionReactor where
  "overflow_example =
     (let r1 = snd (projr (addConcept example_reactor ''big'' [10 ^ 20, 0]))
      in snd (projr (addConcept r1 ''huge'' [10 ^ 20, 0])))"

text \<open>Two concepts with embeddings, as in the unit test of the facade.\<close>

definition learn_example :: CognitiveFusionReactor where
  "learn_example =
     (let r1 = snd (projr (addConcept example_reactor ''cat'' [1, 0]))
      in snd (projr (addConcept r1 ''dog'' [0, 1])))"

section \<open>Evaluating the example states\<close>

lemmas eval_defs = example_reactor_def CognitiveFusionReactor_init_def AtomSpace_init_def
  EmbeddingSpace_init_def addConcept_def addNode_def createNode_def index_push_def
  addRelation_def addLink_def setAttention_def setRelevance_def Let_def

lemma link_first_store_eq:
  "link_first_store = \<lparr>as_atoms = [(1, Link 1 ''x'' initial_truth_value [])],
       as_name_index = (\<lambda>n. None)(''x'' := Some [1]), as_next_handle = 1\<rparr>"
  by (simp add: link_first_store_def addLink_def AtomSpace_init_def index_push_def Let_def)

lemma knn_store_atoms:
  "as_atoms knn_store
     = [(1, Node 1 ''cat'' initial_truth_value [1, 0]), (2, Node 2 ''dog'' initial_truth_value [0, 1]),
        (3, Node 3 ''odd'' initial_truth_value [1]), (4, Node 4 ''zero'' initial_truth_value [0, 0])]"
  by (simp add: knn_store_def AtomSpace_init_def addNode_def createNode_def index_push_def Let_def)

lemma knn_space_eq:
  "knn_space = \<lparr>es_dimensions = 2,
      es_embeddings = [(''cat'', TensorEmbedding_of [1, 0]), (''dog'', TensorEmbedding_of [0, 1])]\<rparr>"
  by (simp add: knn_space_def EmbeddingSpace_init_def addEmbedding_def TensorEmbedding_of_def Let_def)

lemma upt_2: "[0..<2] = [0, Suc 0]"
  by (simp add: upt_rec numeral_2_eq_2)



section \<open>Knowledge store: node deduplication\<close>

lemma addNode_dedup:
  "as_name_index s name = Some (h # hs) \<Longrightarrow> map_of (as_atoms s) h = Some n \<Longrightarrow> isNode n
   \<Longrightarrow> addNode s name e = Inr (n, s)"
  by (simp add: addNode_def)

text \<open>
  C1 (the code at the failing input). A link of type \<^verbatim>\<open>"x"\<close> is added to the empty
  store and gets handle 1, so the name index holds \<^verbatim>\<open>"x" -> [1]\<close>. The first
  \<^verbatim>\<open>addNode("x")\<close> finds a link at position 0 of the index entry and creates the
  node with handle 2 (the entry becomes \<^verbatim>\<open>[1, 2]\<close>); the second call looks at
  position 0 again, still the link, and creates another node with handle 3 instead
  of returning the node with handle 2.
\<close>

theorem addNode_after_link_not_deduplicated:
  "addNode link_first_store ''x'' [] = Inr (Node 2 ''x'' initial_truth_value [], link_then_node_store)
   \<and> as_name_index link_then_node_store ''x'' = Some [1, 2]
   \<and> getAtom link_then_node_store 2 = Some (Node 2 ''x'' initial_truth_value [])
   \<and> map_sum id (getHandle \<circ> fst) (addNode link_then_node_store ''x'' []) = Inr 3"
  by (simp add: link_first_store_eq link_then_node_store_def addNode_def createNode_def
      index_push_def getAtom_def Let_def)

section \<open>Similarity queries\<close>

lemma set_insert_desc: "set (insert_desc x ys) = insert x (set ys)"
  by (induction ys) auto

lemma length_insert_desc: "length (insert_desc x ys) = Suc (length ys)"
  by (induction ys) auto


lemma set_sort_desc: "set (sort_desc xs) = set xs"
  by (induction xs) (auto simp: set_insert_desc)

lemma length_sort_desc: "length (sort_desc xs) = length xs"
  by (induction xs) (auto simp: length_insert_desc)




lemma collect_similar_props:
  "p \<in> set (collect_similar q th al) \<Longrightarrow>
   snd p \<ge> th \<and> snd p = cosineSimilarity q (getEmbedding_node (fst p))
   \<and> isNode (fst p) \<and> hasEmbedding (fst p) \<and> fst p \<in> snd ` set al"
  by (induction q th al rule: collect_similar.induct) (auto split: if_splits)



lemma cosineSimilarity_mismatch: "length a \<noteq> length b \<Longrightarrow> cosineSimilarity a b = 0"
  by (simp add: cosineSimilarity_def)




section \<open>Embedding space: dimension checks\<close>

lemma es_stored_ok_init: "es_stored_ok (EmbeddingSpace_init d)"
  by (simp add: es_stored_ok_def EmbeddingSpace_init_def)

text \<open>
  C8. \<^verbatim>\<open>addEmbedding(name, vector)\<close> fails with the error
  \<^verbatim>\<open>"Embedding dimension mismatch"\<close> exactly when the vector's length differs from
  \<^verbatim>\<open>dimensions\<close>, and otherwise appends the entry; so a space that starts empty
  keeps every stored vector at length \<^verbatim>\<open>dimensions\<close>. \<^verbatim>\<open>findNearest\<close> fails
  exactly when the query's length differs from \<^verbatim>\<open>dimensions\<close>, with
  \<^verbatim>\<open>"Query dimension mismatch"\<close>. The store's \<^verbatim>\<open>querySimilar\<close> instead returns a
  list for every query, in which a candidate of another length has similarity 0.
\<close>

theorem embedding_space_dimension_checks:
  "(addEmbedding es name (TensorEmbedding_of v)
      = (if length v \<noteq> es_dimensions es then Inl (RuntimeError ''Embedding dimension mismatch'')
         else Inr (es\<lparr>es_embeddings := es_embeddings es @ [(name, TensorEmbedding_of v)]\<rparr>)))
   \<and> (\<forall>es'. es_stored_ok es \<and> addEmbedding es name (TensorEmbedding_of v) = Inr es'
         \<longrightarrow> es_stored_ok es' \<and> es_dimensions es' = es_dimensions es)
   \<and> es_stored_ok (EmbeddingSpace_init d)
   \<and> ((\<exists>e. findNearest es (TensorEmbedding_of q) k th = Inl e) = (length q \<noteq> es_dimensions es))
   \<and> (length q \<noteq> es_dimensions es \<longrightarrow>
         findNearest es (TensorEmbedding_of q) k th = Inl (RuntimeError ''Query dimension mismatch''))
   \<and> (\<forall>p\<in>set (querySimilar s q k th).
         length (getEmbedding_node (fst p)) \<noteq> length q \<longrightarrow> snd p = 0)"
proof (intro conjI allI impI ballI)
  show "addEmbedding es name (TensorEmbedding_of v)
      = (if length v \<noteq> es_dimensions es then Inl (RuntimeError ''Embedding dimension mismatch'')
         else Inr (es\<lparr>es_embeddings := es_embeddings es @ [(name, TensorEmbedding_of v)]\<rparr>))"
    by (simp add: addEmbedding_def TensorEmbedding_of_def)
  show "es_stored_ok (EmbeddingSpace_init d)" by (rule es_stored_ok_init)
  show "(\<exists>e. findNearest es (TensorEmbedding_of q) k th = Inl e) = (length q \<noteq> es_dimensions es)"
    by (simp add: findNearest_def TensorEmbedding_of_def Let_def)
next
  fix es' assume "es_stored_ok es \<and> addEmbedding es name (TensorEmbedding_of v) = Inr es'"
  then show "es_stored_ok es'" "es_dimensions es' = es_dimensions es"
    by (auto simp: addEmbedding_def TensorEmbedding_of_def es_stored_ok_def split: if_splits)
next
  assume "length q \<noteq> es_dimensions es"
  then show "findNearest es (TensorEmbedding_of q) k th = Inl (RuntimeError ''Query dimension mismatch'')"
    by (simp add: findNearest_def TensorEmbedding_of_def)
next
  fix p assume p: "p \<in> set (querySimilar s q k th)"
    and n: "length (getEmbedding_node (fst p)) \<noteq> length q"
  have "p \<in> set (collect_similar q th (as_atoms s))"
    using p by (auto simp: querySimilar_def truncate_to_def set_sort_desc split: if_splits dest: in_set_takeD)
  then have "snd p = cosineSimilarity q (getEmbedding_node (fst p))"
    using collect_similar_props by blast
  then show "snd p = 0" using n cosineSimilarity_mismatch[of q "getEmbedding_node (fst p)"] by simp
qed

text \<open>Witness for C8: vectors of length 3 and 2 added to the example space of
  dimension 2, and queries of length 1.\<close>

theorem embedding_space_dimension_checks_witness:
  "addEmbedding knn_space ''fish'' (TensorEmbedding_of [0, 0, 1])
     = Inl (RuntimeError ''Embedding dimension mismatch'')
   \<and> addEmbedding knn_space ''fish'' (TensorEmbedding_of [1, 1])
     = Inr (knn_space\<lparr>es_embeddings := es_embeddings knn_space @ [(''fish'', TensorEmbedding_of [1, 1])]\<rparr>)
   \<and> es_stored_ok knn_space
   \<and> es_stored_ok (knn_space\<lparr>es_embeddings := es_embeddings knn_space @ [(''fish'', TensorEmbedding_of [1, 1])]\<rparr>)
   \<and> findNearest knn_space (TensorEmbedding_of [1]) 2 0 = Inl (RuntimeError ''Query dimension mismatch'')
   \<and> map snd (querySimilar knn_store [1] 2 0) = [1, 0]"
proof -
  have dim: "es_dimensions knn_space = 2" by (simp add: knn_space_eq)
  have ok: "es_stored_ok knn_space"
    by (simp add: knn_space_eq es_stored_ok_def TensorEmbedding_of_def)
  note a = embedding_space_dimension_checks[of knn_space "''fish''" "[0, 0, 1]" 0 "[1]" 2 0 knn_store]
  note b = embedding_space_dimension_checks[of knn_space "''fish''" "[1, 1]" 0 "[1]" 2 0 knn_store]
  have 1: "addEmbedding knn_space ''fish'' (TensorEmbedding_of [0, 0, 1])
     = Inl (RuntimeError ''Embedding dimension mismatch'')"
    using a[THEN conjunct1] dim by simp
  have 2: "addEmbedding knn_space ''fish'' (TensorEmbedding_of [1, 1])
     = Inr (knn_space\<lparr>es_embeddings := es_embeddings knn_space @ [(''fish'', TensorEmbedding_of [1, 1])]\<rparr>)"
    using b[THEN conjunct1] dim by simp
  have 3: "es_stored_ok (knn_space\<lparr>es_embeddings := es_embeddings knn_space @ [(''fish'', TensorEmbedding_of [1, 1])]\<rparr>)"
    using b[THEN conjunct2, THEN conjunct1, rule_format, OF conjI, OF ok 2] by (rule conjunct1)
  have 4: "findNearest knn_space (TensorEmbedding_of [1]) 2 0 = Inl (RuntimeError ''Query dimension mismatch'')"
    by (rule a[THEN conjunct2, THEN conjunct2, THEN conjunct2, THEN conjunct2, THEN conjunct1, rule_format])
      (simp add: dim)
  have 5: "map snd (querySimilar knn_store [1] 2 0) = [1, 0]"
    by (simp add: querySimilar_def knn_store_atoms cosineSimilarity_def hasEmbedding_def truncate_to_def)
  show ?thesis by (intro conjI 1 2 ok 3 4 5)
qed

section \<open>Message delivery\<close>

lemma first_with_id_Some:
  "first_with_id heap i as = Some a \<Longrightarrow> a \<in> set as \<and> ag_id (heap a) = i"
  by (induction as) (auto split: if_splits)

lemma first_with_id_None:
  "(first_with_id heap i as = None) = (\<forall>a\<in>set as. ag_id (heap a) \<noteq> i)"
  by (induction as) auto

lemma getNextMessages_drain:
  "ag_message_queue (heap a) = q \<Longrightarrow>
   getNextMessages (length q) heap a = Inr (q, heap(a := (heap a)\<lparr>ag_message_queue := []\<rparr>))"
proof (induction q arbitrary: heap)
  case Nil
  then have "heap(a := (heap a)\<lparr>ag_message_queue := []\<rparr>) = heap"
    by (auto simp: fun_eq_iff)
  then show ?case by simp
next
  case (Cons m q)
  let ?h = "heap(a := (heap a)\<lparr>ag_message_queue := q\<rparr>)"
  have "getNextMessage heap a = Inr (m, ?h)"
    using Cons.prems by (simp add: getNextMessage_def)
  moreover have "getNextMessages (length q) ?h a = Inr (q, ?h(a := (?h a)\<lparr>ag_message_queue := []\<rparr>))"
    by (rule Cons.IH) simp
  ultimately show ?case by (simp add: fun_eq_iff)
qed

lemma receiveMessage_neq: "receiveMessage heap a m \<noteq> heap"
proof
  assume "receiveMessage heap a m = heap"
  then have "ag_message_queue (receiveMessage heap a m a) = ag_message_queue (heap a)" by simp
  then show False by (simp add: receiveMessage_def)
qed

text \<open>
  C7. \<^verbatim>\<open>sendMessage\<close> changes the agents exactly when an agent whose id equals the
  message's \<^verbatim>\<open>to\<close> field is registered. Then the recipient is the first such agent
  of the registry; the message is appended unchanged at the back of its queue, so
  \<^verbatim>\<open>hasMessages\<close> holds and \<^verbatim>\<open>getNextMessage\<close> returns the earlier messages
  and then this one; no other agent changes. When no such agent is registered,
  \<^verbatim>\<open>sendMessage\<close> returns without error and every agent is as before.
\<close>

theorem sendMessage_delivers_iff_registered:
  "(sendMessage ao heap msg \<noteq> heap) = (\<exists>a\<in>set (ao_agents ao). ag_id (heap a) = am_to msg)
   \<and> (\<forall>a. getAgent ao heap (am_to msg) = Some a \<longrightarrow>
         a \<in> set (ao_agents ao) \<and> ag_id (heap a) = am_to msg
         \<and> sendMessage ao heap msg = receiveMessage heap a msg
         \<and> ag_message_queue (sendMessage ao heap msg a) = ag_message_queue (heap a) @ [msg]
         \<and> hasMessages (sendMessage ao heap msg) a
         \<and> getNextMessages (length (ag_message_queue (heap a)) + 1) (sendMessage ao heap msg) a
             = Inr (ag_message_queue (heap a) @ [msg], heap(a := (heap a)\<lparr>ag_message_queue := []\<rparr>))
         \<and> (\<forall>b. b \<noteq> a \<longrightarrow> sendMessage ao heap msg b = heap b))
   \<and> ((\<forall>a\<in>set (ao_agents ao). ag_id (heap a) \<noteq> am_to msg) \<longrightarrow> sendMessage ao heap msg = heap)"
proof (intro conjI allI impI)
  show "(sendMessage ao heap msg \<noteq> heap) = (\<exists>a\<in>set (ao_agents ao). ag_id (heap a) = am_to msg)"
  proof (cases "getAgent ao heap (am_to msg)")
    case None
    then have "\<forall>a\<in>set (ao_agents ao). ag_id (heap a) \<noteq> am_to msg"
      by (simp add: getAgent_def first_with_id_None)
    then show ?thesis
      using None by (simp add: sendMessage_def)
  next
    case (Some a)
    then show ?thesis
      using first_with_id_Some[of heap "am_to msg" "ao_agents ao" a]
      by (auto simp: sendMessage_def getAgent_def receiveMessage_neq)
  qed
next
  fix a assume a: "getAgent ao heap (am_to msg) = Some a"
  then show "a \<in> set (ao_agents ao)" "ag_id (heap a) = am_to msg"
    using first_with_id_Some[of heap "am_to msg" "ao_agents ao" a] by (simp_all add: getAgent_def)
  show s: "sendMessage ao heap msg = receiveMessage heap a msg"
    using a by (simp add: sendMessage_def)
  show "ag_message_queue (sendMessage ao heap msg a) = ag_message_queue (heap a) @ [msg]"
    by (simp add: s receiveMessage_def)
  show "hasMessages (sendMessage ao heap msg) a"
    by (simp add: s receiveMessage_def hasMessages_def)
  have "getNextMessages (length (ag_message_queue (heap a) @ [msg])) (receiveMessage heap a msg) a
          = Inr (ag_message_queue (heap a) @ [msg],
                 (receiveMessage heap a msg)(a := (receiveMessage heap a msg a)\<lparr>ag_message_queue := []\<rparr>))"
    by (rule getNextMessages_drain) (simp add: receiveMessage_def)
  then show "getNextMessages (length (ag_message_queue (heap a)) + 1) (sendMessage ao heap msg) a
             = Inr (ag_message_queue (heap a) @ [msg], heap(a := (heap a)\<lparr>ag_message_queue := []\<rparr>))"
    by (simp add: s receiveMessage_def)
  fix b assume "b \<noteq> a"
  then show "sendMessage ao heap msg b = heap b"
    by (simp add: s receiveMessage_def)
next
  assume "\<forall>a\<in>set (ao_agents ao). ag_id (heap a) \<noteq> am_to msg"
  then have "first_with_id heap (am_to msg) (ao_agents ao) = None"
    by (simp add: first_with_id_None)
  then show "sendMessage ao heap msg = heap"
    by (simp add: sendMessage_def getAgent_def)
qed

text \<open>Witness for C7: the message of the unit test, delivered to \<^verbatim>\<open>agent2\<close>, and a
  message to an id that is not registered.\<close>

theorem sendMessage_delivers_witness:
  "getAgent example_orchestrator example_heap (am_to example_message) = Some 1
   \<and> hasMessages (sendMessage example_orchestrator example_heap example_message) 1
   \<and> \<not> hasMessages example_heap 1
   \<and> map am_content (fst (projr (getNextMessages 1
         (sendMessage example_orchestrator example_heap example_message) 1))) = [''hello'']
   \<and> sendMessage example_orchestrator example_heap (example_message\<lparr>am_to := ''nobody''\<rparr>)
       = example_heap"
proof -
  have g: "getAgent example_orchestrator example_heap (am_to example_message) = Some 1"
    by (simp add: getAgent_def example_orchestrator_def registerAgent_def AgentOrchestrator_init_def
        example_heap_def example_message_def Agent_init_def)
  have q: "ag_message_queue (example_heap 1) = []"
    by (simp add: example_heap_def Agent_init_def)
  have n: "\<forall>a\<in>set (ao_agents example_orchestrator).
             ag_id (example_heap a) \<noteq> am_to (example_message\<lparr>am_to := ''nobody''\<rparr>)"
    by (simp add: example_orchestrator_def registerAgent_def AgentOrchestrator_init_def
        example_heap_def Agent_init_def)
  have c: "am_content example_message = ''hello''"
    by (simp add: example_message_def)
  note d = sendMessage_delivers_iff_registered[of example_orchestrator example_heap example_message]
  note u = sendMessage_delivers_iff_registered[of example_orchestrator example_heap
      "example_message\<lparr>am_to := ''nobody''\<rparr>"]
  have h: "hasMessages (sendMessage example_orchestrator example_heap example_message) 1"
    using d g by blast
  have m: "getNextMessages (length (ag_message_queue (example_heap 1)) + 1)
             (sendMessage example_orchestrator example_heap example_message) 1
           = Inr (ag_message_queue (example_heap 1) @ [example_message],
                  example_heap(1 := (example_heap 1)\<lparr>ag_message_queue := []\<rparr>))"
    using d g by blast
  have s: "sendMessage example_orchestrator example_heap (example_message\<lparr>am_to := ''nobody''\<rparr>)
       = example_heap"
    using u n by blast
  have m': "getNextMessages 1 (sendMessage example_orchestrator example_heap example_message) 1
           = Inr ([example_message], example_heap(1 := (example_heap 1)\<lparr>ag_message_queue := []\<rparr>))"
    using m by (simp only: q list.size append_Nil add_0)
  have r: "map am_content (fst (projr (getNextMessages 1
         (sendMessage example_orchestrator example_heap example_message) 1))) = [''hello'']"
    by (simp only: m' sum.sel fst_conv list.map c)
  have e: "\<not> hasMessages example_heap 1"
    using q by (simp add: hasMessages_def)
  show ?thesis using g h e r s by blast
qed

section \<open>Relevance\<close>












section \<open>Attention spreading\<close>

lemma spread_from_targets: "spread_from s h bank = fold raise_sti (link_targets s h) bank"
  by (simp add: spread_from_def link_targets_def split: option.splits)

lemma fold_spread_from:
  "fold (spread_from s) hs bank = fold raise_sti (concat (map (link_targets s) hs)) bank"
  by (induction hs arbitrary: bank) (simp_all add: spread_from_targets)

lemma spreadAttention_bank:
  "cfr_attention_bank (spreadAttention r) = fold raise_sti (spread_targets r) (cfr_attention_bank r)"
  by (simp add: spreadAttention_def spread_targets_def fold_spread_from)

lemma map_of_raise_sti:
  "map_of (raise_sti t bank) h =
     (if h = t then Some ((bank_entry bank t)\<lparr>sti := raise_step (sti (bank_entry bank t))\<rparr>)
      else map_of bank h)"
  by (simp add: raise_sti_def update_conv' raise_step_def)

lemma bank_entry_raise_sti:
  "bank_entry (raise_sti t bank) h =
     (if h = t then (bank_entry bank t)\<lparr>sti := raise_step (sti (bank_entry bank t))\<rparr>
      else bank_entry bank h)"
  by (simp add: bank_entry_def map_of_raise_sti)

lemma bank_entry_fold:
  "bank_entry (fold raise_sti ts bank) h
     = (bank_entry bank h)\<lparr>sti := (raise_step ^^ count_list ts h) (sti (bank_entry bank h))\<rparr>"
proof (induction ts arbitrary: bank)
  case Nil
  then show ?case by simp
next
  case (Cons t ts)
  show ?case
  proof (cases "h = t")
    case True
    have "bank_entry (fold raise_sti ts (raise_sti t bank)) h
            = (bank_entry (raise_sti t bank) h)
                \<lparr>sti := (raise_step ^^ count_list ts h) (sti (bank_entry (raise_sti t bank) h))\<rparr>"
      by (rule Cons.IH)
    then show ?thesis using True
      by (simp add: bank_entry_raise_sti funpow_swap1)
  next
    case False
    then show ?thesis by (simp add: Cons.IH bank_entry_raise_sti)
  qed
qed

lemma map_of_fold_untouched:
  "h \<notin> set ts \<Longrightarrow> map_of (fold raise_sti ts bank) h = map_of bank h"
  by (induction ts arbitrary: bank) (auto simp: map_of_raise_sti)

lemma map_of_fold_touched:
  "h \<in> set ts \<Longrightarrow> map_of (fold raise_sti ts bank) h = Some (bank_entry (fold raise_sti ts bank) h)"
proof (induction ts arbitrary: bank)
  case Nil
  then show ?case by simp
next
  case (Cons t ts)
  show ?case
  proof (cases "h \<in> set ts")
    case True
    then show ?thesis using Cons.IH by simp
  next
    case False
    then have "h = t" using Cons.prems by simp
    then show ?thesis using False
      by (simp add: map_of_fold_untouched bank_entry_def map_of_raise_sti)
  qed
qed

lemma raise_step_from_zero: "(raise_step ^^ n) 0 = min 1 (real n / 10)"
  by (induction n) (auto simp: raise_step_def min_def field_simps)

lemma spread_targets_set:
  "set (spread_targets r)
     = {t. \<exists>h\<in>set (high_attention (cfr_attention_bank r)).
             \<exists>a. getAtom (cfr_atomspace r) h = Some a \<and> isLink a \<and> t \<in> set (getOutgoing a)}"
  by (auto simp: spread_targets_def link_targets_def split: option.splits if_splits) metis

lemma high_attention_set:
  "set (high_attention bank) = {h. \<exists>a. (h, a) \<in> set bank \<and> sti a > 7 / 10}"
  by (auto simp: high_attention_def image_iff)

lemma high_attention_distinct:
  "distinct (map fst bank) \<Longrightarrow>
   (h \<in> set (high_attention bank)) = (\<exists>a. map_of bank h = Some a \<and> sti a > 7 / 10)"
  by (auto simp: high_attention_set)

lemma spread_example_atoms:
  "as_atoms (cfr_atomspace spread_example)
     = [(1, Node 1 ''A'' initial_truth_value []), (2, Node 2 ''B'' initial_truth_value []),
        (3, Link 3 ''SimilarityLink'' initial_truth_value [1, 2])]"
  by (simp add: spread_example_def eval_defs)

lemma spread_example_bank:
  "cfr_attention_bank spread_example
     = [(1, \<lparr>sti = 2 / 10, lti = 1 / 2, vlti = 1 / 2\<rparr>),
        (2, \<lparr>sti = 2 / 10, lti = 1 / 2, vlti = 1 / 2\<rparr>),
        (3, \<lparr>sti = 8 / 10, lti = 1 / 2, vlti = 1 / 2\<rparr>)]"
  by (simp add: spread_example_def eval_defs)

lemma spread_example_targets: "spread_targets spread_example = [1, 2]"
  by (simp add: spread_targets_def spread_example_atoms spread_example_bank high_attention_def
      link_targets_def getAtom_def)

lemma spread_example_after:
  "cfr_attention_bank (spreadAttention spread_example)
     = [(1, \<lparr>sti = 3 / 10, lti = 1 / 2, vlti = 1 / 2\<rparr>),
        (2, \<lparr>sti = 3 / 10, lti = 1 / 2, vlti = 1 / 2\<rparr>),
        (3, \<lparr>sti = 8 / 10, lti = 1 / 2, vlti = 1 / 2\<rparr>)]"
  by (simp add: spreadAttention_bank spread_example_targets spread_example_bank raise_sti_def
      bank_entry_def)

lemma spreadAttention_atomspace: "cfr_atomspace (spreadAttention r) = cfr_atomspace r"
  by (simp add: spreadAttention_def)

lemma spread_example_targets2: "spread_targets (spreadAttention spread_example) = [1, 2]"
  by (simp add: spread_targets_def spread_example_after high_attention_def
      link_targets_def getAtom_def spreadAttention_atomspace spread_example_atoms)

text \<open>
  C4 as stated fails: a collected link keeps its own \<^verbatim>\<open>sti\<close> only when no
  collected link lists it. Here the link with handle 2 is collected (sti 0.8) and is
  the outgoing atom of the collected link with handle 3, and one call raises its
  \<^verbatim>\<open>sti\<close> to 0.9.
\<close>

theorem spreadAttention_changes_collected_link:
  "2 \<in> set (high_attention (cfr_attention_bank nested_link_example))
   \<and> getAtom (cfr_atomspace nested_link_example) 2 = Some (Link 2 ''inner'' initial_truth_value [1])
   \<and> sti (getAttention nested_link_example 2) = 8 / 10
   \<and> sti (getAttention (spreadAttention nested_link_example) 2) = 9 / 10"
  by (simp add: nested_link_example_def eval_defs spreadAttention_def high_attention_def
      spread_from_def getAtom_def raise_sti_def bank_entry_def getAttention_def)

text \<open>
  C4, amended. \<^verbatim>\<open>spreadAttention\<close> is a single pass: it collects the handles of
  the attention table whose \<^verbatim>\<open>sti\<close> exceeds 0.7 (the keys of the table being
  distinct, as those of a map are), and for each collected handle that
  is a link of the store, in turn, raises the \<^verbatim>\<open>sti\<close> of each atom of its outgoing
  list by one step \<open>min 1 (sti + 0.1)\<close>. So a handle that occurs \<open>n\<close> times in the
  outgoing lists of the collected links is raised by \<open>n\<close> successive steps (one step,
  to \<open>min 1 (sti + 0.1)\<close>, when it occurs once), its \<^verbatim>\<open>lti\<close> and \<^verbatim>\<open>vlti\<close> kept;
  every other entry, among them a collected link that no collected link lists, is
  unchanged, and nothing but the attention table changes. (\<open>spread_targets\<close> lists the
  atoms of those outgoing lists, with repetitions.)
\<close>

theorem spreadAttention_one_hop:
  "set (high_attention (cfr_attention_bank r))
      = {h. \<exists>a. (h, a) \<in> set (cfr_attention_bank r) \<and> sti a > 7 / 10}
   \<and> (distinct (map fst (cfr_attention_bank r)) \<longrightarrow>
        (\<forall>h. (h \<in> set (high_attention (cfr_attention_bank r)))
             = (\<exists>a. map_of (cfr_attention_bank r) h = Some a \<and> sti a > 7 / 10)))
   \<and> set (spread_targets r)
      = {t. \<exists>h\<in>set (high_attention (cfr_attention_bank r)).
              \<exists>a. getAtom (cfr_atomspace r) h = Some a \<and> isLink a \<and> t \<in> set (getOutgoing a)}
   \<and> (\<forall>t. t \<notin> set (spread_targets r) \<longrightarrow>
         map_of (cfr_attention_bank (spreadAttention r)) t = map_of (cfr_attention_bank r) t)
   \<and> (\<forall>t\<in>set (spread_targets r).
         map_of (cfr_attention_bank (spreadAttention r)) t
           = Some ((bank_entry (cfr_attention_bank r) t)
                     \<lparr>sti := (raise_step ^^ count_list (spread_targets r) t)
                               (sti (bank_entry (cfr_attention_bank r) t))\<rparr>))
   \<and> (\<forall>t a. count_list (spread_targets r) t = 1 \<and> map_of (cfr_attention_bank r) t = Some a \<longrightarrow>
         getAttention (spreadAttention r) t = a\<lparr>sti := min 1 (sti a + 1 / 10)\<rparr>)
   \<and> spreadAttention r = r\<lparr>cfr_attention_bank := cfr_attention_bank (spreadAttention r)\<rparr>"
proof (intro conjI allI impI ballI)
  show "set (high_attention (cfr_attention_bank r))
      = {h. \<exists>a. (h, a) \<in> set (cfr_attention_bank r) \<and> sti a > 7 / 10}"
    by (rule high_attention_set)
  show "(h \<in> set (high_attention (cfr_attention_bank r)))
          = (\<exists>a. map_of (cfr_attention_bank r) h = Some a \<and> sti a > 7 / 10)"
    if "distinct (map fst (cfr_attention_bank r))" for h
    using that by (rule high_attention_distinct)
  show "set (spread_targets r)
      = {t. \<exists>h\<in>set (high_attention (cfr_attention_bank r)).
              \<exists>a. getAtom (cfr_atomspace r) h = Some a \<and> isLink a \<and> t \<in> set (getOutgoing a)}"
    by (rule spread_targets_set)
  show "spreadAttention r = r\<lparr>cfr_attention_bank := cfr_attention_bank (spreadAttention r)\<rparr>"
    by (simp add: spreadAttention_def)
next
  fix t :: AtomHandle assume "t \<notin> set (spread_targets r)"
  then show "map_of (cfr_attention_bank (spreadAttention r)) t = map_of (cfr_attention_bank r) t"
    by (simp add: spreadAttention_bank map_of_fold_untouched)
next
  fix t :: AtomHandle assume "t \<in> set (spread_targets r)"
  then show "map_of (cfr_attention_bank (spreadAttention r)) t
           = Some ((bank_entry (cfr_attention_bank r) t)
                     \<lparr>sti := (raise_step ^^ count_list (spread_targets r) t)
                               (sti (bank_entry (cfr_attention_bank r) t))\<rparr>)"
    by (simp add: spreadAttention_bank map_of_fold_touched bank_entry_fold)
next
  fix t :: AtomHandle and a :: AttentionValue
  assume h: "count_list (spread_targets r) t = 1 \<and> map_of (cfr_attention_bank r) t = Some a"
  then have "t \<in> set (spread_targets r)"
    using count_list_0_iff[of "spread_targets r" t] by auto
  then have "map_of (cfr_attention_bank (spreadAttention r)) t
           = Some ((bank_entry (cfr_attention_bank r) t)
                     \<lparr>sti := (raise_step ^^ count_list (spread_targets r) t)
                               (sti (bank_entry (cfr_attention_bank r) t))\<rparr>)"
    by (simp add: spreadAttention_bank map_of_fold_touched bank_entry_fold)
  then show "getAttention (spreadAttention r) t = a\<lparr>sti := min 1 (sti a + 1 / 10)\<rparr>"
    using h by (simp add: getAttention_def bank_entry_def raise_step_def)
qed

text \<open>Witness for C4: the link L at sti 0.8 over A and B at sti 0.2. One call gives A
  and B sti 0.3 and leaves L as it was; a second call gives them 0.4.\<close>

theorem spreadAttention_one_hop_witness:
  "count_list (spread_targets spread_example) 1 = 1
   \<and> map_of (cfr_attention_bank spread_example) 1 = Some \<lparr>sti = 2 / 10, lti = 1 / 2, vlti = 1 / 2\<rparr>
   \<and> getAttention (spreadAttention spread_example) 1 = \<lparr>sti = 3 / 10, lti = 1 / 2, vlti = 1 / 2\<rparr>
   \<and> getAttention (spreadAttention spread_example) 2 = \<lparr>sti = 3 / 10, lti = 1 / 2, vlti = 1 / 2\<rparr>
   \<and> 3 \<notin> set (spread_targets spread_example)
   \<and> getAttention (spreadAttention spread_example) 3 = getAttention spread_example 3
   \<and> getAttention (spreadAttention (spreadAttention spread_example)) 1
       = \<lparr>sti = 4 / 10, lti = 1 / 2, vlti = 1 / 2\<rparr>
   \<and> getAttention (spreadAttention (spreadAttention spread_example)) 2
       = \<lparr>sti = 4 / 10, lti = 1 / 2, vlti = 1 / 2\<rparr>"
proof -
  have c1: "count_list (spread_targets spread_example) 1 = 1"
    and c2: "count_list (spread_targets spread_example) 2 = 1"
    and c3: "3 \<notin> set (spread_targets spread_example)"
    by (simp_all add: spread_example_targets)
  have m1: "map_of (cfr_attention_bank spread_example) 1 = Some \<lparr>sti = 2 / 10, lti = 1 / 2, vlti = 1 / 2\<rparr>"
    and m2: "map_of (cfr_attention_bank spread_example) 2 = Some \<lparr>sti = 2 / 10, lti = 1 / 2, vlti = 1 / 2\<rparr>"
    by (simp_all add: spread_example_bank)
  have d1: "count_list (spread_targets (spreadAttention spread_example)) 1 = 1"
    and d2: "count_list (spread_targets (spreadAttention spread_example)) 2 = 1"
    by (simp_all add: spread_example_targets2)
  have n1: "map_of (cfr_attention_bank (spreadAttention spread_example)) 1 = Some \<lparr>sti = 3 / 10, lti = 1 / 2, vlti = 1 / 2\<rparr>"
    and n2: "map_of (cfr_attention_bank (spreadAttention spread_example)) 2 = Some \<lparr>sti = 3 / 10, lti = 1 / 2, vlti = 1 / 2\<rparr>"
    by (simp_all add: spread_example_after)
  note untouched = spreadAttention_one_hop[THEN conjunct2, THEN conjunct2, THEN conjunct2,
      THEN conjunct1, rule_format]
  note once = spreadAttention_one_hop[THEN conjunct2, THEN conjunct2, THEN conjunct2,
      THEN conjunct2, THEN conjunct2, THEN conjunct1, rule_format, OF conjI]
  have a1: "getAttention (spreadAttention spread_example) 1 = \<lparr>sti = 3 / 10, lti = 1 / 2, vlti = 1 / 2\<rparr>"
    using once[OF c1 m1] by simp
  have a2: "getAttention (spreadAttention spread_example) 2 = \<lparr>sti = 3 / 10, lti = 1 / 2, vlti = 1 / 2\<rparr>"
    using once[OF c2 m2] by simp
  have a3: "getAttention (spreadAttention spread_example) 3 = getAttention spread_example 3"
    using untouched[OF c3] by (simp add: getAttention_def)
  have b1: "getAttention (spreadAttention (spreadAttention spread_example)) 1
       = \<lparr>sti = 4 / 10, lti = 1 / 2, vlti = 1 / 2\<rparr>"
    using once[OF d1 n1] by simp
  have b2: "getAttention (spreadAttention (spreadAttention spread_example)) 2
       = \<lparr>sti = 4 / 10, lti = 1 / 2, vlti = 1 / 2\<rparr>"
    using once[OF d2 n2] by simp
  show ?thesis by (intro conjI c1 m1 a1 a2 c3 a3 b1 b2)
qed

text \<open>
  C10 as stated fails: the links with handles 3 and 4 (both at sti 0.8) each list the
  atom with handle 2; that atom has no attention entry before the call and reads
  \<open>{0.2, 0, 0}\<close> afterwards.
\<close>

theorem spreadAttention_double_target:
  "high_attention (cfr_attention_bank double_target_example) = [3, 4]
   \<and> getAtom (cfr_atomspace double_target_example) 3 = Some (Link 3 ''outer'' initial_truth_value [2])
   \<and> getAtom (cfr_atomspace double_target_example) 4 = Some (Link 4 ''other'' initial_truth_value [2])
   \<and> map_of (cfr_attention_bank double_target_example) 2 = None
   \<and> getAttention (spreadAttention double_target_example) 2 = \<lparr>sti = 2 / 10, lti = 0, vlti = 0\<rparr>"
  by (simp add: double_target_example_def unset_target_example_def eval_defs spreadAttention_def
      high_attention_def spread_from_def getAtom_def raise_sti_def bank_entry_def getAttention_def)

text \<open>
  C10, amended. An atom of the outgoing list of a collected link that has no
  attention entry before the call gets an entry that starts from \<open>{0, 0, 0}\<close>, not
  from the read default \<open>{0.5, 0.5, 0.5}\<close>: when it occurs \<open>n\<close> times in the outgoing
  lists of the collected links, \<^verbatim>\<open>getAttention\<close> afterwards returns
  \<open>{min 1 (n / 10), 0, 0}\<close>, that is \<open>{0.1, 0, 0}\<close> when it occurs once.
\<close>

theorem spreadAttention_materializes_zero_entries:
  "\<forall>t\<in>set (spread_targets r). map_of (cfr_attention_bank r) t = None \<longrightarrow>
      getAttention (spreadAttention r) t
        = \<lparr>sti = min 1 (real (count_list (spread_targets r) t) / 10), lti = 0, vlti = 0\<rparr>
      \<and> (count_list (spread_targets r) t = 1 \<longrightarrow>
           getAttention (spreadAttention r) t = \<lparr>sti = 1 / 10, lti = 0, vlti = 0\<rparr>)
      \<and> getAttention r t = \<lparr>sti = 1 / 2, lti = 1 / 2, vlti = 1 / 2\<rparr>"
proof (intro ballI impI)
  fix t assume t: "t \<in> set (spread_targets r)" and n: "map_of (cfr_attention_bank r) t = None"
  have "map_of (cfr_attention_bank (spreadAttention r)) t
           = Some ((bank_entry (cfr_attention_bank r) t)
                     \<lparr>sti := (raise_step ^^ count_list (spread_targets r) t)
                               (sti (bank_entry (cfr_attention_bank r) t))\<rparr>)"
    using t by (simp add: spreadAttention_bank map_of_fold_touched bank_entry_fold)
  then have g: "getAttention (spreadAttention r) t
        = \<lparr>sti = min 1 (real (count_list (spread_targets r) t) / 10), lti = 0, vlti = 0\<rparr>"
    using n by (simp add: getAttention_def bank_entry_def raise_step_from_zero)
  show "getAttention (spreadAttention r) t
        = \<lparr>sti = min 1 (real (count_list (spread_targets r) t) / 10), lti = 0, vlti = 0\<rparr>
      \<and> (count_list (spread_targets r) t = 1 \<longrightarrow>
           getAttention (spreadAttention r) t = \<lparr>sti = 1 / 10, lti = 0, vlti = 0\<rparr>)
      \<and> getAttention r t = \<lparr>sti = 1 / 2, lti = 1 / 2, vlti = 1 / 2\<rparr>"
    using g n by (simp add: getAttention_def)
qed

text \<open>Witness for C10: the outgoing atom without entry, listed once.\<close>

theorem spreadAttention_materializes_witness:
  "2 \<in> set (spread_targets unset_target_example)
   \<and> map_of (cfr_attention_bank unset_target_example) 2 = None
   \<and> count_list (spread_targets unset_target_example) 2 = 1
   \<and> getAttention unset_target_example 2 = \<lparr>sti = 1 / 2, lti = 1 / 2, vlti = 1 / 2\<rparr>
   \<and> getAttention (spreadAttention unset_target_example) 2 = \<lparr>sti = 1 / 10, lti = 0, vlti = 0\<rparr>"
proof -
  have t: "spread_targets unset_target_example = [2]"
    by (simp add: unset_target_example_def eval_defs spread_targets_def high_attention_def
      link_targets_def getAtom_def)
  have n: "map_of (cfr_attention_bank unset_target_example) 2 = None"
    by (simp add: unset_target_example_def eval_defs)
  show ?thesis
    using spreadAttention_materializes_zero_entries[of unset_target_example] t n by simp
qed

section \<open>Learnable network and embedding learner\<close>

lemma nl_forward_Inr:
  assumes "nl_input_size l \<le> length input"
  obtains out l' where "nl_forward l input = Inr (out, l')"
    and "length out = nl_output_size l"
    and "nl_input_size l' = nl_input_size l" and "nl_output_size l' = nl_output_size l"
    and "nl_weights l' = nl_weights l" and "nl_biases l' = nl_biases l"
    and "nl_last_input l' = input"
    and "length (nl_last_preactivation l') = nl_output_size l"
  using assms by (simp add: nl_forward_def Let_def)

lemma layer_shaped_forward:
  "nl_forward l input = Inr (out, l') \<Longrightarrow> layer_shaped l \<Longrightarrow> layer_shaped l'"
  by (auto simp: nl_forward_def Let_def layer_shaped_def split: if_splits)

lemma nl_backward_Inr:
  assumes "nl_output_size l \<le> length g"
    and "nl_output_size l \<le> length (nl_last_preactivation l)"
    and "nl_input_size l \<le> length (nl_last_input l)"
  obtains g' l' where "nl_backward l g lr = Inr (g', l')"
    and "length g' = nl_input_size l"
    and "nl_input_size l' = nl_input_size l" and "nl_output_size l' = nl_output_size l"
    and "layer_shaped l'"
  using assms by (simp add: nl_backward_def Let_def layer_shaped_def list_all_iff)

lemma ln_forward_ok:
  assumes ok: "network_ok d net" and len: "d \<le> length input"
  obtains out net' where "ln_forward net input = Inr (out, net')"
    and "length out = d" and "network_ok d net'"
    and "ln_learning_rate net' = ln_learning_rate net"
    and "\<exists>l1 l2. ln_layers net' = [l1, l2] \<and> nl_last_input l1 = input
           \<and> length (nl_last_preactivation l1) = d * 2
           \<and> length (nl_last_input l2) = d * 2
           \<and> length (nl_last_preactivation l2) = d"
proof -
  from ok obtain l1 l2 where ls: "ln_layers net = [l1, l2]"
    and s: "nl_input_size l1 = d" "nl_output_size l1 = d * 2"
      "nl_input_size l2 = d * 2" "nl_output_size l2 = d"
    and sh: "layer_shaped l1" "layer_shaped l2"
    by (auto simp: network_ok_def split: list.splits)
  from len s have "nl_input_size l1 \<le> length input" by simp
  then obtain o1 l1' where f1: "nl_forward l1 input = Inr (o1, l1')"
    and o1: "length o1 = nl_output_size l1"
    and p1: "nl_input_size l1' = nl_input_size l1" "nl_output_size l1' = nl_output_size l1"
      "nl_weights l1' = nl_weights l1" "nl_biases l1' = nl_biases l1"
      "nl_last_input l1' = input" "length (nl_last_preactivation l1') = nl_output_size l1"
    by (rule nl_forward_Inr)
  from o1 s have "nl_input_size l2 \<le> length o1" by simp
  then obtain o2 l2' where f2: "nl_forward l2 o1 = Inr (o2, l2')"
    and o2: "length o2 = nl_output_size l2"
    and p2: "nl_input_size l2' = nl_input_size l2" "nl_output_size l2' = nl_output_size l2"
      "nl_weights l2' = nl_weights l2" "nl_biases l2' = nl_biases l2"
      "nl_last_input l2' = o1" "length (nl_last_preactivation l2') = nl_output_size l2"
    by (rule nl_forward_Inr)
  have sh': "layer_shaped l1'" "layer_shaped l2'"
    using layer_shaped_forward[OF f1 sh(1)] layer_shaped_forward[OF f2 sh(2)] by simp_all
  have r: "ln_forward net input = Inr (o2, net\<lparr>ln_layers := [l1', l2']\<rparr>)"
    by (simp add: ln_forward_def ls f1 f2)
  show ?thesis
  proof (rule that[OF r])
    show "length o2 = d" using o2 s by simp
    show "network_ok d (net\<lparr>ln_layers := [l1', l2']\<rparr>)"
      using s p1 p2 sh' by (simp add: network_ok_def)
    show "ln_learning_rate (net\<lparr>ln_layers := [l1', l2']\<rparr>) = ln_learning_rate net" by simp
    show "\<exists>k1 k2. ln_layers (net\<lparr>ln_layers := [l1', l2']\<rparr>) = [k1, k2] \<and> nl_last_input k1 = input
           \<and> length (nl_last_preactivation k1) = d * 2
           \<and> length (nl_last_input k2) = d * 2
           \<and> length (nl_last_preactivation k2) = d"
      using p1 p2 o1 s by simp
  qed
qed

lemma train_ok:
  assumes ok: "network_ok d net" and len: "d \<le> length input" and tl: "d \<le> length target"
  obtains loss net' where "train net input target = Inr (loss, net')" and "network_ok d net'"
proof -
  obtain out net1 where f: "ln_forward net input = Inr (out, net1)"
    and o: "length out = d" and ok1: "network_ok d net1"
    and c: "\<exists>l1 l2. ln_layers net1 = [l1, l2] \<and> nl_last_input l1 = input
           \<and> length (nl_last_preactivation l1) = d * 2
           \<and> length (nl_last_input l2) = d * 2
           \<and> length (nl_last_preactivation l2) = d"
    using ln_forward_ok[OF ok len] by metis
  from c obtain l1 l2 where ls: "ln_layers net1 = [l1, l2]"
    and c1: "nl_last_input l1 = input" "length (nl_last_preactivation l1) = d * 2"
    and c2: "length (nl_last_input l2) = d * 2" "length (nl_last_preactivation l2) = d"
    by blast
  from ok1 ls have s: "nl_input_size l1 = d" "nl_output_size l1 = d * 2"
      "nl_input_size l2 = d * 2" "nl_output_size l2 = d"
    by (simp_all add: network_ok_def)
  define g where "g = map (\<lambda>i. 2 * (out ! i - target ! i) / real (length out)) [0..<length out]"
  have "nl_output_size l2 \<le> length g" "nl_output_size l2 \<le> length (nl_last_preactivation l2)"
    "nl_input_size l2 \<le> length (nl_last_input l2)"
    using s c2 o by (simp_all add: g_def)
  then obtain g2 l2' where b2: "nl_backward l2 g (ln_learning_rate net1) = Inr (g2, l2')"
    and g2: "length g2 = nl_input_size l2"
    and q2: "nl_input_size l2' = nl_input_size l2" "nl_output_size l2' = nl_output_size l2"
      "layer_shaped l2'"
    by (rule nl_backward_Inr)
  have "nl_output_size l1 \<le> length g2" "nl_output_size l1 \<le> length (nl_last_preactivation l1)"
    "nl_input_size l1 \<le> length (nl_last_input l1)"
    using s c1 g2 len by simp_all
  then obtain g1 l1' where b1: "nl_backward l1 g2 (ln_learning_rate net1) = Inr (g1, l1')"
    and q1: "nl_input_size l1' = nl_input_size l1" "nl_output_size l1' = nl_output_size l1"
      "layer_shaped l1'"
    by (rule nl_backward_Inr)
  have bw: "ln_backward net1 g = Inr (net1\<lparr>ln_layers := [l1', l2']\<rparr>)"
    by (simp add: ln_backward_def ls b2 b1)
  have "\<not> length target < length out" using o tl by simp
  then have "train net input target
      = Inr ((\<Sum>i\<leftarrow>[0..<length out]. (out ! i - target ! i) * (out ! i - target ! i))
               / real (length out), net1\<lparr>ln_layers := [l1', l2']\<rparr>)"
    unfolding train_def f sum.case prod.case Let_def g_def[symmetric] bw by simp
  moreover have "network_ok d (net1\<lparr>ln_layers := [l1', l2']\<rparr>)"
    using s q1 q2 by (simp add: network_ok_def)
  ultimately show ?thesis by (rule that)
qed

lemma nl_forward_no_RuntimeError: "nl_forward l input \<noteq> Inl (RuntimeError msg)"
  by (simp add: nl_forward_def Let_def)

lemma nl_backward_no_RuntimeError: "nl_backward l g lr \<noteq> Inl (RuntimeError msg)"
  by (simp add: nl_backward_def Let_def)

lemma forward_layers_no_RuntimeError: "forward_layers ls input \<noteq> Inl (RuntimeError msg)"
  by (induction ls arbitrary: input)
    (auto simp: nl_forward_no_RuntimeError split: sum.splits prod.splits)

lemma backward_layers_no_RuntimeError: "backward_layers ls g lr \<noteq> Inl (RuntimeError msg)"
  by (induction ls arbitrary: g)
    (auto simp: nl_backward_no_RuntimeError split: sum.splits prod.splits)

lemma train_no_RuntimeError: "train net input target \<noteq> Inl (RuntimeError msg)"
  by (auto simp: train_def ln_forward_def ln_backward_def Let_def
      forward_layers_no_RuntimeError backward_layers_no_RuntimeError
      split: sum.splits prod.splits if_splits)

lemma nl_forward_surplus:
  assumes "nl_input_size l \<le> length input"
  shows "map_sum id fst (nl_forward l input)
           = map_sum id fst (nl_forward l (take (nl_input_size l) input))"
proof -
  have eq: "map (\<lambda>j. nl_weights l ! i ! j * take (nl_input_size l) input ! j) [0..<nl_input_size l]
          = map (\<lambda>j. nl_weights l ! i ! j * input ! j) [0..<nl_input_size l]" for i
    by (rule map_cong) simp_all
  show ?thesis
    using assms by (simp add: nl_forward_def Let_def eq)
qed

lemma example_network_ok: "network_ok 2 (el_network example_learner)"
  by (simp add: example_learner_def EmbeddingLearner_init_def NeuralLayer_init_def
      network_ok_def layer_shaped_def)

text \<open>
  C2 as stated fails for \<^verbatim>\<open>train\<close>: the network has one layer with input size 1,
  the input has length 2, and \<^verbatim>\<open>train\<close> returns the loss 1.0201, computed from the
  first entry alone.
\<close>

theorem train_accepts_longer_input:
  "map_sum id fst (train tiny_network [1, 2] [0]) = Inr (10201 / 10000)
   \<and> nl_input_size (hd (ln_layers tiny_network)) = 1"
  by (simp add: tiny_network_def train_def ln_forward_def ln_backward_def nl_forward_def
      nl_backward_def NeuralLayer_init_def relu_def reluDerivative_def Let_def power2_eq_square)

text \<open>
  C2, amended. \<^verbatim>\<open>EmbeddingLearner::transform\<close> fails with
  \<^verbatim>\<open>"Input dimension mismatch"\<close> for every input whose length differs from the
  learner's dimension. \<^verbatim>\<open>LearnableNetwork::train\<close> checks no length and never
  fails with a dimension-mismatch error: a layer's forward pass reads only the first
  \<^verbatim>\<open>input_size_\<close> entries of its input, so on an input at least that long it
  computes the output of the input cut to that length, and on a network of the
  learner's shape \<^verbatim>\<open>train\<close> returns a loss for every input and target of at least
  the configured length.
\<close>

theorem transform_checks_dimension_train_does_not:
  "(length v \<noteq> el_embedding_dim el \<longrightarrow>
      transform el (TensorEmbedding_of v) = Inl (RuntimeError ''Input dimension mismatch''))
   \<and> (\<forall>msg. train net input target \<noteq> Inl (RuntimeError msg))
   \<and> (nl_input_size l \<le> length input \<longrightarrow>
        map_sum id fst (nl_forward l input)
          = map_sum id fst (nl_forward l (take (nl_input_size l) input)))
   \<and> (network_ok d net \<and> d \<le> length input \<and> d \<le> length target \<longrightarrow>
        (\<exists>loss net'. train net input target = Inr (loss, net')))"
proof (intro conjI allI impI)
  assume "length v \<noteq> el_embedding_dim el"
  then show "transform el (TensorEmbedding_of v) = Inl (RuntimeError ''Input dimension mismatch'')"
    by (simp add: transform_def TensorEmbedding_of_def)
next
  fix msg show "train net input target \<noteq> Inl (RuntimeError msg)"
    by (rule train_no_RuntimeError)
next
  assume "nl_input_size l \<le> length input"
  then show "map_sum id fst (nl_forward l input)
          = map_sum id fst (nl_forward l (take (nl_input_size l) input))"
    by (rule nl_forward_surplus)
next
  assume "network_ok d net \<and> d \<le> length input \<and> d \<le> length target"
  then show "\<exists>loss net'. train net input target = Inr (loss, net')"
    using train_ok[of d net input target] by metis
qed

text \<open>Witness for C2: a vector of length 3 for the learner of dimension 2, and inputs
  longer than the configured input size for \<^verbatim>\<open>train\<close> and \<^verbatim>\<open>forward\<close>.\<close>

theorem transform_checks_dimension_train_does_not_witness:
  "transform example_learner (TensorEmbedding_of [1, 2, 3])
     = Inl (RuntimeError ''Input dimension mismatch'')
   \<and> train tiny_network [1, 2] [0] \<noteq> Inl (RuntimeError ''Input dimension mismatch'')
   \<and> map_sum id fst (nl_forward (hd (ln_layers tiny_network)) [1, 2])
       = map_sum id fst (nl_forward (hd (ln_layers tiny_network)) [1])
   \<and> network_ok 2 (el_network example_learner)
   \<and> \<not> isl (train (el_network example_learner) [1, 2, 3] [0, 0])"
proof -
  note a = transform_checks_dimension_train_does_not[of "[1, 2, 3]" "example_learner"
      tiny_network "[1, 2]" "[0]" "hd (ln_layers tiny_network)" 0]
  note b = transform_checks_dimension_train_does_not[of "[1, 2, 3]" "example_learner"
      "el_network example_learner" "[1, 2, 3]" "[0, 0]" "hd (ln_layers tiny_network)" 2]
  have 1: "transform example_learner (TensorEmbedding_of [1, 2, 3])
     = Inl (RuntimeError ''Input dimension mismatch'')"
    by (rule a[THEN conjunct1, rule_format])
      (simp add: example_learner_def EmbeddingLearner_init_def)
  have 2: "train tiny_network [1, 2] [0] \<noteq> Inl (RuntimeError ''Input dimension mismatch'')"
    by (rule a[THEN conjunct2, THEN conjunct1, rule_format])
  have s: "nl_input_size (hd (ln_layers tiny_network)) = 1"
    by (simp add: tiny_network_def NeuralLayer_init_def)
  have 3: "map_sum id fst (nl_forward (hd (ln_layers tiny_network)) [1, 2])
       = map_sum id fst (nl_forward (hd (ln_layers tiny_network)) [1])"
    using a[THEN conjunct2, THEN conjunct2, THEN conjunct1] by (simp add: s)
  have hyp: "network_ok 2 (el_network example_learner)
      \<and> 2 \<le> length [1, 2, 3 :: real] \<and> 2 \<le> length [0, 0 :: real]"
    by (simp add: example_network_ok)
  from b[THEN conjunct2, THEN conjunct2, THEN conjunct2, rule_format, OF hyp]
  have 5: "\<not> isl (train (el_network example_learner) [1, 2, 3] [0, 0])"
    by (elim exE) simp
  show ?thesis
    by (intro conjI 1 2 3 example_network_ok 5)
qed

section \<open>Learning from similarity\<close>

lemma lookup_first_stored:
  "lookup_first c es = Some e \<Longrightarrow> (c, e) \<in> set es"
  by (induction c es rule: lookup_first.induct) (auto split: if_splits)

lemma getEmbedding_stored_ok:
  assumes "es_stored_ok es" and "getEmbedding es c = Some e"
  shows "te_dimensions e = es_dimensions es" and "length (te_data e) = es_dimensions es"
  using assms lookup_first_stored[of c "es_embeddings es" e]
  by (auto simp: es_stored_ok_def getEmbedding_def list_all_iff)

lemma f_pow2_range: "f_pow2 x = NaN \<or> f_le (Fin 0) (f_pow2 x)"
proof (cases x)
  case (Fin a)
  define s where "s = a * a"
  have "0 \<le> s" by (simp add: s_def)
  moreover have "(0::real) < overflow_bound" by (simp add: overflow_bound_def)
  ultimately have "f_le (Fin 0) (fl s)"
    by (auto simp: fl_def f_le_def)
  then show ?thesis using Fin by (simp add: f_pow2_def s_def)
qed (simp_all add: f_pow2_def f_le_def)

lemma f_pow2_NaN: "f_pow2 x = NaN \<longleftrightarrow> x = NaN"
  by (cases x) (simp_all add: f_pow2_def fl_def overflow_bound_def)

lemma f_pow2_not_sentinel: "f_pow2 x \<noteq> Fin (- 1)"
proof (cases x)
  case (Fin a)
  have "0 \<le> a * a" by simp
  then have "a * a \<noteq> - 1" by linarith
  then show ?thesis using Fin by (simp add: f_pow2_def fl_def)
qed (simp_all add: f_pow2_def)

lemma nlf_forward_Inr:
  assumes "nlf_input_size l \<le> length input"
  obtains out l' where "nlf_forward l input = Inr (out, l')"
    and "length out = nlf_output_size l"
    and "nlf_input_size l' = nlf_input_size l" and "nlf_output_size l' = nlf_output_size l"
    and "nlf_weights l' = nlf_weights l" and "nlf_biases l' = nlf_biases l"
    and "nlf_activation l' = nlf_activation l"
    and "nlf_last_input l' = input"
    and "length (nlf_last_preactivation l') = nlf_output_size l"
  using assms by (simp add: nlf_forward_def Let_def)

lemma layer_shapedF_forward:
  "nlf_forward l input = Inr (out, l') \<Longrightarrow> layer_shapedF l \<Longrightarrow> layer_shapedF l'"
  by (auto simp: nlf_forward_def Let_def layer_shapedF_def split: if_splits)

lemma nlf_backward_Inr:
  assumes "nlf_output_size l \<le> length g"
    and "nlf_output_size l \<le> length (nlf_last_preactivation l)"
    and "nlf_input_size l \<le> length (nlf_last_input l)"
  obtains g' l' where "nlf_backward l g lr = Inr (g', l')"
    and "length g' = nlf_input_size l"
    and "nlf_input_size l' = nlf_input_size l" and "nlf_output_size l' = nlf_output_size l"
    and "layer_shapedF l'"
  using assms by (simp add: nlf_backward_def Let_def layer_shapedF_def list_all_iff)

text \<open>The output of a forward pass does not depend on what the layers cached.\<close>

lemma nlf_forward_cache:
  assumes "nlf_forward l x = Inr (out, l')"
  shows "map_sum id fst (nlf_forward l' y) = map_sum id fst (nlf_forward l y)"
  using assms by (auto simp: nlf_forward_def Let_def split: if_splits)

lemma forward_layersF_cache:
  "forward_layersF ls x = Inr (out, ls') \<Longrightarrow>
   map_sum id fst (forward_layersF ls' y) = map_sum id fst (forward_layersF ls y)"
proof (induction ls arbitrary: x y out ls')
  case Nil
  then show ?case by simp
next
  case (Cons l ls)
  from Cons.prems obtain o1 l1 res ls1 where f: "nlf_forward l x = Inr (o1, l1)"
    and r: "forward_layersF ls o1 = Inr (res, ls1)" and e: "ls' = l1 # ls1"
    by (auto split: sum.splits prod.splits)
  have h: "map_sum id fst (nlf_forward l1 y) = map_sum id fst (nlf_forward l y)"
    by (rule nlf_forward_cache[OF f])
  show ?case
  proof (cases "nlf_forward l y")
    case (Inl err)
    then show ?thesis using h e by (cases "nlf_forward l1 y") auto
  next
    case (Inr p)
    obtain o2 l2 where p: "p = (o2, l2)" by (cases p)
    from h Inr p obtain l3 where g: "nlf_forward l1 y = Inr (o2, l3)"
      by (cases "nlf_forward l1 y") auto
    have "map_sum id fst (forward_layersF ls1 o2) = map_sum id fst (forward_layersF ls o2)"
      by (rule Cons.IH[OF r])
    then show ?thesis
      using Inr p g e
      by (cases "forward_layersF ls1 o2"; cases "forward_layersF ls o2") auto
  qed
qed

lemma transformF_cache:
  assumes "transformF el x = Inr (t, el')"
  shows "map_sum id fst (transformF el' y) = map_sum id fst (transformF el y)"
proof -
  from assms obtain out ls' where
    f: "forward_layersF (lnf_layers (elf_network el)) (tef_data x) = Inr (out, ls')"
    and e: "el' = el\<lparr>elf_network := (elf_network el)\<lparr>lnf_layers := ls'\<rparr>\<rparr>"
    by (auto simp: transformF_def lnf_forward_def split: if_splits sum.splits prod.splits)
  have "map_sum id fst (forward_layersF ls' (tef_data y))
      = map_sum id fst (forward_layersF (lnf_layers (elf_network el)) (tef_data y))"
    by (rule forward_layersF_cache[OF f])
  then show ?thesis
    unfolding e
    by (cases "forward_layersF ls' (tef_data y)";
        cases "forward_layersF (lnf_layers (elf_network el)) (tef_data y)")
      (auto simp: transformF_def lnf_forward_def)
qed

lemma lnf_forward_ok:
  assumes ok: "network_okF d net" and len: "d \<le> length input"
  obtains out net' where "lnf_forward net input = Inr (out, net')"
    and "length out = d" and "network_okF d net'"
    and "lnf_learning_rate net' = lnf_learning_rate net"
    and "\<exists>l1 l2. lnf_layers net' = [l1, l2] \<and> nlf_last_input l1 = input
           \<and> length (nlf_last_preactivation l1) = d * 2
           \<and> length (nlf_last_input l2) = d * 2
           \<and> length (nlf_last_preactivation l2) = d"
proof -
  from ok obtain l1 l2 where ls: "lnf_layers net = [l1, l2]"
    and s: "nlf_input_size l1 = d" "nlf_output_size l1 = d * 2"
      "nlf_input_size l2 = d * 2" "nlf_output_size l2 = d"
    and sh: "layer_shapedF l1" "layer_shapedF l2"
    by (auto simp: network_okF_def split: list.splits)
  from len s have "nlf_input_size l1 \<le> length input" by simp
  then obtain o1 l1' where f1: "nlf_forward l1 input = Inr (o1, l1')"
    and o1: "length o1 = nlf_output_size l1"
    and p1: "nlf_input_size l1' = nlf_input_size l1" "nlf_output_size l1' = nlf_output_size l1"
      "nlf_last_input l1' = input" "length (nlf_last_preactivation l1') = nlf_output_size l1"
    by (rule nlf_forward_Inr)
  from o1 s have "nlf_input_size l2 \<le> length o1" by simp
  then obtain o2 l2' where f2: "nlf_forward l2 o1 = Inr (o2, l2')"
    and o2: "length o2 = nlf_output_size l2"
    and p2: "nlf_input_size l2' = nlf_input_size l2" "nlf_output_size l2' = nlf_output_size l2"
      "nlf_last_input l2' = o1" "length (nlf_last_preactivation l2') = nlf_output_size l2"
    by (rule nlf_forward_Inr)
  have sh': "layer_shapedF l1'" "layer_shapedF l2'"
    using layer_shapedF_forward[OF f1 sh(1)] layer_shapedF_forward[OF f2 sh(2)] by simp_all
  have r: "lnf_forward net input = Inr (o2, net\<lparr>lnf_layers := [l1', l2']\<rparr>)"
    by (simp add: lnf_forward_def ls f1 f2)
  show ?thesis
  proof (rule that[OF r])
    show "length o2 = d" using o2 s by simp
    show "network_okF d (net\<lparr>lnf_layers := [l1', l2']\<rparr>)"
      using s p1 p2 sh' by (simp add: network_okF_def)
    show "lnf_learning_rate (net\<lparr>lnf_layers := [l1', l2']\<rparr>) = lnf_learning_rate net" by simp
    show "\<exists>k1 k2. lnf_layers (net\<lparr>lnf_layers := [l1', l2']\<rparr>) = [k1, k2] \<and> nlf_last_input k1 = input
           \<and> length (nlf_last_preactivation k1) = d * 2
           \<and> length (nlf_last_input k2) = d * 2
           \<and> length (nlf_last_preactivation k2) = d"
      using p1 p2 o1 s by simp
  qed
qed

lemma trainF_ok:
  assumes ok: "network_okF d net" and len: "d \<le> length input" and tl: "d \<le> length target"
  obtains loss net' where "trainF net input target = Inr (loss, net')" and "network_okF d net'"
proof -
  obtain out net1 where f: "lnf_forward net input = Inr (out, net1)"
    and o: "length out = d" and ok1: "network_okF d net1"
    and c: "\<exists>l1 l2. lnf_layers net1 = [l1, l2] \<and> nlf_last_input l1 = input
           \<and> length (nlf_last_preactivation l1) = d * 2
           \<and> length (nlf_last_input l2) = d * 2
           \<and> length (nlf_last_preactivation l2) = d"
    using lnf_forward_ok[OF ok len] by metis
  from c obtain l1 l2 where ls: "lnf_layers net1 = [l1, l2]"
    and c1: "nlf_last_input l1 = input" "length (nlf_last_preactivation l1) = d * 2"
    and c2: "length (nlf_last_input l2) = d * 2" "length (nlf_last_preactivation l2) = d"
    by blast
  from ok1 ls have s: "nlf_input_size l1 = d" "nlf_output_size l1 = d * 2"
      "nlf_input_size l2 = d * 2" "nlf_output_size l2 = d"
    by (simp_all add: network_okF_def)
  define g where "g = map (\<lambda>i. f_div (f_mul (Fin 2) (f_sub (out ! i) (target ! i)))
                             (Fin (real (length out)))) [0..<length out]"
  have "nlf_output_size l2 \<le> length g" "nlf_output_size l2 \<le> length (nlf_last_preactivation l2)"
    "nlf_input_size l2 \<le> length (nlf_last_input l2)"
    using s c2 o by (simp_all add: g_def)
  then obtain g2 l2' where b2: "nlf_backward l2 g (lnf_learning_rate net1) = Inr (g2, l2')"
    and g2: "length g2 = nlf_input_size l2"
    and q2: "nlf_input_size l2' = nlf_input_size l2" "nlf_output_size l2' = nlf_output_size l2"
      "layer_shapedF l2'"
    by (rule nlf_backward_Inr)
  have "nlf_output_size l1 \<le> length g2" "nlf_output_size l1 \<le> length (nlf_last_preactivation l1)"
    "nlf_input_size l1 \<le> length (nlf_last_input l1)"
    using s c1 g2 len by simp_all
  then obtain g1 l1' where b1: "nlf_backward l1 g2 (lnf_learning_rate net1) = Inr (g1, l1')"
    and q1: "nlf_input_size l1' = nlf_input_size l1" "nlf_output_size l1' = nlf_output_size l1"
      "layer_shapedF l1'"
    by (rule nlf_backward_Inr)
  have bw: "lnf_backward net1 g = Inr (net1\<lparr>lnf_layers := [l1', l2']\<rparr>)"
    by (simp add: lnf_backward_def ls b2 b1)
  have "\<not> length target < length out" using o tl by simp
  then have "\<exists>loss. trainF net input target = Inr (loss, net1\<lparr>lnf_layers := [l1', l2']\<rparr>)"
    unfolding trainF_def f sum.case prod.case Let_def g_def[symmetric] bw by simp
  moreover have "network_okF d (net1\<lparr>lnf_layers := [l1', l2']\<rparr>)"
    using s q1 q2 by (simp add: network_okF_def)
  ultimately show ?thesis using that by blast
qed

lemma transformF_ok:
  assumes ok: "network_okF d (elf_network el)" and dim: "elf_embedding_dim el = d"
    and e: "tef_dimensions e = d" "length (tef_data e) = d"
  obtains out el' where "transformF el e = Inr (TensorEmbeddingF_of out, el')"
    and "length out = d" and "elf_embedding_dim el' = d"
    and "network_okF d (elf_network el')"
proof -
  obtain out net' where f: "lnf_forward (elf_network el) (tef_data e) = Inr (out, net')"
    and o: "length out = d" and ok': "network_okF d net'"
    using lnf_forward_ok[OF ok, of "tef_data e"] e(2) by (metis order_refl)
  have "transformF el e = Inr (TensorEmbeddingF_of out, el\<lparr>elf_network := net'\<rparr>)"
    using e dim by (simp add: transformF_def f)
  then show ?thesis
    by (rule that) (simp_all add: o dim ok')
qed

lemma learnFromSimilarity_ok:
  assumes ok: "network_okF d (elf_network el)" and dim: "elf_embedding_dim el = d"
    and e1: "tef_dimensions e1 = d" "length (tef_data e1) = d"
    and e2: "tef_dimensions e2 = d" "length (tef_data e2) = d"
  obtains t1 t2 el' where
    "map_sum id fst (transformF el e1) = Inr t1" and "map_sum id fst (transformF el e2) = Inr t2"
    and "learnFromSimilarity el e1 e2 target
           = Inr (f_pow2 (f_sub (tef_cosineSimilarity t1 t2) target), el')"
    and "elf_embedding_dim el' = d" and "network_okF d (elf_network el')"
proof -
  obtain o1 el1 where t1: "transformF el e1 = Inr (TensorEmbeddingF_of o1, el1)"
    and l1: "length o1 = d" and d1: "elf_embedding_dim el1 = d"
    and ok1: "network_okF d (elf_network el1)"
    by (rule transformF_ok[OF ok dim e1])
  obtain o2 el2 where t2: "transformF el1 e2 = Inr (TensorEmbeddingF_of o2, el2)"
    and l2: "length o2 = d" and d2: "elf_embedding_dim el2 = d"
    and ok2: "network_okF d (elf_network el2)"
    by (rule transformF_ok[OF ok1 d1 e2])
  have t2': "map_sum id fst (transformF el e2) = Inr (TensorEmbeddingF_of o2)"
    using transformF_cache[OF t1, of e2] t2 by simp
  define cur where "cur = tef_cosineSimilarity (TensorEmbeddingF_of o1) (TensorEmbeddingF_of o2)"
  define target1 where "target1 =
     map (\<lambda>i. f_add (tef_data e1 ! i)
                (f_mul (f_mul (f_sub target cur) (Fin (1 / 10)))
                   (f_sub (tef_data (TensorEmbeddingF_of o2) ! i) (tef_data (TensorEmbeddingF_of o1) ! i))))
       [0..<elf_embedding_dim el]
     @ drop (elf_embedding_dim el) (tef_data e1)"
  have "d \<le> length target1"
    by (simp add: target1_def dim)
  then obtain l net' where tr: "trainF (elf_network el2) (tef_data e1) target1 = Inr (l, net')"
    and ok': "network_okF d net'"
    using trainF_ok[OF ok2, of "tef_data e1" target1] e1(2) by (metis order_refl)
  have guard: "\<not> (length (tef_data e1) < elf_embedding_dim el
      \<or> length (tef_data (TensorEmbeddingF_of o1)) < elf_embedding_dim el
      \<or> length (tef_data (TensorEmbeddingF_of o2)) < elf_embedding_dim el)"
    using e1 l1 l2 dim by (simp add: TensorEmbeddingF_of_def)
  have "learnFromSimilarity el e1 e2 target
          = Inr (f_pow2 (f_sub cur target), el2\<lparr>elf_network := net'\<rparr>)"
    unfolding learnFromSimilarity_def t1 t2 sum.case prod.case Let_def
      cur_def[symmetric] target1_def[symmetric] tr
    using guard by simp
  then show ?thesis
    using t1 t2' d2 ok'
    by (intro that[of "TensorEmbeddingF_of o1" "TensorEmbeddingF_of o2" "el2\<lparr>elf_network := net'\<rparr>"])
      (simp_all add: cur_def)
qed

lemma learnFromSimilarity_loss:
  assumes "learnFromSimilarity el e1 e2 target = Inr (loss, el')"
  shows "\<exists>x. loss = f_pow2 x"
  using assms
  by (auto simp: learnFromSimilarity_def Let_def split: sum.splits prod.splits if_splits)

lemma reactor_ok_init:
  assumes "length w1 = d * 2" and "list_all (\<lambda>row. length row = d) w1"
    and "length w2 = d" and "list_all (\<lambda>row. length row = d * 2) w2"
  shows "reactor_ok (CognitiveFusionReactor_init d lr w1 w2)"
  using assms
  by (simp add: reactor_ok_def CognitiveFusionReactor_init_def EmbeddingSpace_init_def
      EmbeddingLearnerF_init_def NeuralLayerF_init_def network_okF_def layer_shapedF_def
      es_stored_ok_def list_all_iff)

lemma reactor_ok_addConcept:
  assumes "reactor_ok r" and "addConcept r name e = Inr (n, r')"
  shows "reactor_ok r'"
  using assms
  by (auto simp: reactor_ok_def addConcept_def addEmbedding_def setAttention_def setRelevance_def
      TensorEmbedding_of_def es_stored_ok_def split: sum.splits if_splits)

lemma example_reactor_ok: "reactor_ok example_reactor"
  unfolding example_reactor_def by (rule reactor_ok_init) simp_all

lemma learn_example_facts:
  "getEmbedding (cfr_embedding_space learn_example) ''cat'' = Some (TensorEmbedding_of [1, 0])"
  "getEmbedding (cfr_embedding_space learn_example) ''dog'' = Some (TensorEmbedding_of [0, 1])"
  "getEmbedding (cfr_embedding_space learn_example) ''missing'' = None"
  "cfr_learner learn_example = cfr_learner example_reactor"
  by (simp_all add: learn_example_def eval_defs addEmbedding_def TensorEmbedding_of_def getEmbedding_def)

lemma overflow_example_facts:
  "getEmbedding (cfr_embedding_space overflow_example) ''big'' = Some (TensorEmbedding_of [10 ^ 20, 0])"
  "getEmbedding (cfr_embedding_space overflow_example) ''huge'' = Some (TensorEmbedding_of [10 ^ 20, 0])"
  "cfr_learner overflow_example = cfr_learner example_reactor"
  by (simp_all add: overflow_example_def eval_defs addEmbedding_def TensorEmbedding_of_def getEmbedding_def)

lemma two_concepts_ok:
  assumes "r = (let r1 = snd (projr (addConcept example_reactor n1 [a, b]))
                in snd (projr (addConcept r1 n2 [c, d])))"
    and ne: "n2 \<noteq> n1"
  shows "reactor_ok r"
proof -
  have 1: "\<not> isl (addConcept example_reactor n1 [a, b])"
    by (simp add: eval_defs addEmbedding_def TensorEmbedding_of_def)
  then obtain x1 r1 where a1: "addConcept example_reactor n1 [a, b] = Inr (x1, r1)"
    by (cases "addConcept example_reactor n1 [a, b]") auto
  have ok1: "reactor_ok r1"
    by (rule reactor_ok_addConcept[OF example_reactor_ok a1])
  have "\<not> isl (addConcept r1 n2 [c, d])"
    using a1 ne by (auto simp: eval_defs addEmbedding_def TensorEmbedding_of_def)
  then obtain x2 r2 where a2: "addConcept r1 n2 [c, d] = Inr (x2, r2)"
    by (cases "addConcept r1 n2 [c, d]") auto
  have "r = r2"
    by (simp add: assms a1 a2)
  then show ?thesis
    using reactor_ok_addConcept[OF ok1 a2] by simp
qed

lemma learn_example_ok: "reactor_ok learn_example"
  by (rule two_concepts_ok, simp add: learn_example_def, simp)

lemma overflow_example_ok: "reactor_ok overflow_example"
  by (rule two_concepts_ok, simp add: overflow_example_def, simp)

lemma upt_4: "[0..<4] = [0, 1, 2, 3]"
  by (simp add: upt_rec)

lemma example_transform:
  "map_sum id fst (transformF (cfr_learner example_reactor) (te_float (TensorEmbedding_of [1, 0])))
     = Inr (TensorEmbeddingF_of [Fin (102 / 100), Fin (2 / 100)])"
  "map_sum id fst (transformF (cfr_learner example_reactor) (te_float (TensorEmbedding_of [0, 1])))
     = Inr (TensorEmbeddingF_of [Fin (2 / 100), Fin (102 / 100)])"
  "map_sum id fst (transformF (cfr_learner example_reactor) (te_float (TensorEmbedding_of [10 ^ 20, 0])))
     = Inr (TensorEmbeddingF_of [Fin (10 ^ 20 + 2 / 100), Fin (2 / 100)])"
  by (simp_all add: example_reactor_def CognitiveFusionReactor_init_def EmbeddingLearnerF_init_def
      NeuralLayerF_init_def transformF_def lnf_forward_def nlf_forward_def te_float_def
      TensorEmbedding_of_def TensorEmbeddingF_of_def relu_f_def fl_def overflow_bound_def
      upt_2 upt_4 Let_def)

lemma example_cosine:
  "tef_cosineSimilarity (TensorEmbeddingF_of [Fin (102 / 100), Fin (2 / 100)])
     (TensorEmbeddingF_of [Fin (2 / 100), Fin (102 / 100)]) = Fin (51 / 1301)"
  "tef_cosineSimilarity (TensorEmbeddingF_of [Fin (10 ^ 20 + 2 / 100), Fin (2 / 100)])
     (TensorEmbeddingF_of [Fin (10 ^ 20 + 2 / 100), Fin (2 / 100)]) = NaN"
  by (simp_all add: tef_cosineSimilarity_def TensorEmbeddingF_of_def fl_def overflow_bound_def
      upt_2 Let_def power2_eq_square)

lemma learnSimilarity_delegates:
  assumes "getEmbedding (cfr_embedding_space r) c1 = Some e1"
    and "getEmbedding (cfr_embedding_space r) c2 = Some e2"
    and "learnSimilarity r c1 c2 target = Inr (loss, r')"
  shows "\<exists>el'. learnFromSimilarity (cfr_learner r) (te_float e1) (te_float e2) target = Inr (loss, el')
              \<and> r' = r\<lparr>cfr_learner := el'\<rparr>"
  using assms by (auto simp: learnSimilarity_def split: sum.splits prod.splits)

text \<open>
  C5 as stated fails when the similarity is NaN: the concepts "big" and "huge" both
  have the embedding \<open>(10 ^ 20, 0)\<close>; the squared norms of the transformed
  embeddings overflow to infinity, the cosine similarity is
  \<^verbatim>\<open>inf / inf\<close>, that is NaN, and the loss returned for the target 0.9 is NaN, for
  which \<^verbatim>\<open>loss >= 0\<close> is false.
\<close>

theorem learnSimilarity_overflow_loss_is_NaN:
  "getEmbedding (cfr_embedding_space overflow_example) ''big'' = Some (TensorEmbedding_of [10 ^ 20, 0])
   \<and> getEmbedding (cfr_embedding_space overflow_example) ''huge'' = Some (TensorEmbedding_of [10 ^ 20, 0])
   \<and> map_sum id fst (learnSimilarity overflow_example ''big'' ''huge'' (Fin (9 / 10))) = Inr NaN
   \<and> \<not> f_le (Fin 0) NaN"
proof -
  note f = overflow_example_facts
  let ?e = "te_float (TensorEmbedding_of [10 ^ 20, 0])"
  have ok: "network_okF 2 (elf_network (cfr_learner example_reactor))"
    and dim: "elf_embedding_dim (cfr_learner example_reactor) = 2"
    using example_reactor_ok
    by (simp_all add: reactor_ok_def example_reactor_def CognitiveFusionReactor_init_def)
  have e: "tef_dimensions ?e = 2" "length (tef_data ?e) = 2"
    by (simp_all add: te_float_def TensorEmbedding_of_def)
  obtain t1 t2 el' where
    t: "map_sum id fst (transformF (cfr_learner example_reactor) ?e) = Inr t1"
      "map_sum id fst (transformF (cfr_learner example_reactor) ?e) = Inr t2"
    and l: "learnFromSimilarity (cfr_learner example_reactor) ?e ?e (Fin (9 / 10))
           = Inr (f_pow2 (f_sub (tef_cosineSimilarity t1 t2) (Fin (9 / 10))), el')"
    by (rule learnFromSimilarity_ok[OF ok dim e e])
  have t1: "t1 = TensorEmbeddingF_of [Fin (10 ^ 20 + 2 / 100), Fin (2 / 100)]"
    and t2: "t2 = TensorEmbeddingF_of [Fin (10 ^ 20 + 2 / 100), Fin (2 / 100)]"
    using t by (simp_all only: example_transform sum.inject)
  have "f_pow2 (f_sub (tef_cosineSimilarity t1 t2) (Fin (9 / 10))) = NaN"
    unfolding t1 t2 example_cosine by (simp add: f_sub_def f_pow2_def)
  then have "map_sum id fst (learnSimilarity overflow_example ''big'' ''huge'' (Fin (9 / 10))) = Inr NaN"
    using l by (simp add: learnSimilarity_def f)
  moreover have "\<not> f_le (Fin 0) NaN"
    by (simp add: f_le_def)
  ultimately show ?thesis
    by (intro conjI f(1) f(2))
qed

text \<open>
  C5, amended. \<^verbatim>\<open>learnSimilarity(name1, name2, target)\<close> returns exactly \<open>-1\<close> and
  leaves the whole facade, the network's weights included, unchanged when either
  name has no embedding in the embedding space. When both names have one, whatever
  it returns is what \<^verbatim>\<open>learnFromSimilarity\<close> returns on the two stored embeddings,
  only the learner changes, and a returned loss is never the sentinel: it is at least
  0 (possibly infinite) or NaN. In a facade as its constructor and \<^verbatim>\<open>addConcept\<close>
  build it (\<open>reactor_ok\<close>) the call does return a loss: it is the square of
  \<open>current - target\<close>, where \<open>current\<close> is the cosine similarity of the two
  embeddings as the learner transforms them before the call, and it is NaN exactly
  when \<open>current - target\<close> is NaN.
\<close>

theorem learnSimilarity_sentinel_and_loss:
  "((getEmbedding (cfr_embedding_space r) c1 = None \<or> getEmbedding (cfr_embedding_space r) c2 = None)
      \<longrightarrow> learnSimilarity r c1 c2 target = Inr (Fin (- 1), r))
   \<and> (\<forall>e1 e2 loss r'. getEmbedding (cfr_embedding_space r) c1 = Some e1
          \<and> getEmbedding (cfr_embedding_space r) c2 = Some e2
          \<and> learnSimilarity r c1 c2 target = Inr (loss, r') \<longrightarrow>
        (loss = NaN \<or> f_le (Fin 0) loss) \<and> loss \<noteq> Fin (- 1)
        \<and> (\<exists>el'. learnFromSimilarity (cfr_learner r) (te_float e1) (te_float e2) target
                    = Inr (loss, el')
                  \<and> r' = r\<lparr>cfr_learner := el'\<rparr>))
   \<and> (\<forall>e1 e2. reactor_ok r \<and> getEmbedding (cfr_embedding_space r) c1 = Some e1
          \<and> getEmbedding (cfr_embedding_space r) c2 = Some e2 \<longrightarrow>
        (\<exists>t1 t2 el'.
           map_sum id fst (transformF (cfr_learner r) (te_float e1)) = Inr t1
           \<and> map_sum id fst (transformF (cfr_learner r) (te_float e2)) = Inr t2
           \<and> learnSimilarity r c1 c2 target
               = Inr (f_pow2 (f_sub (tef_cosineSimilarity t1 t2) target), r\<lparr>cfr_learner := el'\<rparr>)
           \<and> (f_pow2 (f_sub (tef_cosineSimilarity t1 t2) target) = NaN
                \<longleftrightarrow> f_sub (tef_cosineSimilarity t1 t2) target = NaN)
           \<and> reactor_ok (r\<lparr>cfr_learner := el'\<rparr>)))"
proof (intro conjI allI impI)
  assume "getEmbedding (cfr_embedding_space r) c1 = None \<or> getEmbedding (cfr_embedding_space r) c2 = None"
  then show "learnSimilarity r c1 c2 target = Inr (Fin (- 1), r)"
    by (auto simp: learnSimilarity_def split: option.splits)
next
  fix e1 e2 :: TensorEmbedding and loss :: fval and r' :: CognitiveFusionReactor
  assume "getEmbedding (cfr_embedding_space r) c1 = Some e1
          \<and> getEmbedding (cfr_embedding_space r) c2 = Some e2
          \<and> learnSimilarity r c1 c2 target = Inr (loss, r')"
  then have d: "\<exists>el'. learnFromSimilarity (cfr_learner r) (te_float e1) (te_float e2) target
                    = Inr (loss, el')
              \<and> r' = r\<lparr>cfr_learner := el'\<rparr>"
    using learnSimilarity_delegates[of r c1 e1 c2 e2 target loss r'] by blast
  then obtain x where x: "loss = f_pow2 x"
    using learnFromSimilarity_loss by blast
  show "loss = NaN \<or> f_le (Fin 0) loss"
    unfolding x by (rule f_pow2_range)
  show "loss \<noteq> Fin (- 1)"
    unfolding x by (rule f_pow2_not_sentinel)
  show "\<exists>el'. learnFromSimilarity (cfr_learner r) (te_float e1) (te_float e2) target
                    = Inr (loss, el')
              \<and> r' = r\<lparr>cfr_learner := el'\<rparr>"
    by (rule d)
next
  fix e1 e2 :: TensorEmbedding
  assume h: "reactor_ok r \<and> getEmbedding (cfr_embedding_space r) c1 = Some e1
          \<and> getEmbedding (cfr_embedding_space r) c2 = Some e2"
  let ?d = "cfr_embedding_dim r"
  from h have ok: "network_okF ?d (elf_network (cfr_learner r))"
    and dim: "elf_embedding_dim (cfr_learner r) = ?d"
    and st: "es_stored_ok (cfr_embedding_space r)"
    and ed: "es_dimensions (cfr_embedding_space r) = ?d"
    by (simp_all add: reactor_ok_def)
  have e1: "tef_dimensions (te_float e1) = ?d" "length (tef_data (te_float e1)) = ?d"
    using getEmbedding_stored_ok[OF st, of c1 e1] h ed by (simp_all add: te_float_def)
  have e2: "tef_dimensions (te_float e2) = ?d" "length (tef_data (te_float e2)) = ?d"
    using getEmbedding_stored_ok[OF st, of c2 e2] h ed by (simp_all add: te_float_def)
  obtain t1 t2 el' where
    a: "map_sum id fst (transformF (cfr_learner r) (te_float e1)) = Inr t1"
      "map_sum id fst (transformF (cfr_learner r) (te_float e2)) = Inr t2"
    and l: "learnFromSimilarity (cfr_learner r) (te_float e1) (te_float e2) target
           = Inr (f_pow2 (f_sub (tef_cosineSimilarity t1 t2) target), el')"
    and d': "elf_embedding_dim el' = ?d" and ok': "network_okF ?d (elf_network el')"
    by (rule learnFromSimilarity_ok[OF ok dim e1 e2, of target])
  have s: "learnSimilarity r c1 c2 target
               = Inr (f_pow2 (f_sub (tef_cosineSimilarity t1 t2) target), r\<lparr>cfr_learner := el'\<rparr>)"
    using h by (simp add: learnSimilarity_def l)
  have n: "f_pow2 (f_sub (tef_cosineSimilarity t1 t2) target) = NaN
                \<longleftrightarrow> f_sub (tef_cosineSimilarity t1 t2) target = NaN"
    by (rule f_pow2_NaN)
  have rk: "reactor_ok (r\<lparr>cfr_learner := el'\<rparr>)"
    using st ed d' ok' by (simp add: reactor_ok_def)
  show "\<exists>t1 t2 el'.
           map_sum id fst (transformF (cfr_learner r) (te_float e1)) = Inr t1
           \<and> map_sum id fst (transformF (cfr_learner r) (te_float e2)) = Inr t2
           \<and> learnSimilarity r c1 c2 target
               = Inr (f_pow2 (f_sub (tef_cosineSimilarity t1 t2) target), r\<lparr>cfr_learner := el'\<rparr>)
           \<and> (f_pow2 (f_sub (tef_cosineSimilarity t1 t2) target) = NaN
                \<longleftrightarrow> f_sub (tef_cosineSimilarity t1 t2) target = NaN)
           \<and> reactor_ok (r\<lparr>cfr_learner := el'\<rparr>)"
    by (intro exI conjI) (rule a(1), rule a(2), rule s, rule n, rule rk)
qed

text \<open>Witness for C5: two names that are not stored, and the stored names
  \<^verbatim>\<open>"cat"\<close> and \<^verbatim>\<open>"dog"\<close>, whose transformed embeddings \<open>(1.02, 0.02)\<close> and
  \<open>(0.02, 1.02)\<close> have the cosine similarity \<open>51 / 1301\<close>.\<close>

theorem learnSimilarity_sentinel_and_loss_witness:
  "learnSimilarity learn_example ''missing'' ''also-missing'' (Fin (9 / 10))
     = Inr (Fin (- 1), learn_example)
   \<and> reactor_ok learn_example
   \<and> getEmbedding (cfr_embedding_space learn_example) ''cat'' = Some (TensorEmbedding_of [1, 0])
   \<and> getEmbedding (cfr_embedding_space learn_example) ''dog'' = Some (TensorEmbedding_of [0, 1])
   \<and> map_sum id fst (learnSimilarity learn_example ''cat'' ''dog'' (Fin (9 / 10)))
       = Inr (Fin ((51 / 1301 - 9 / 10) ^ 2))
   \<and> f_le (Fin 0) (fst (projr (learnSimilarity learn_example ''cat'' ''dog'' (Fin (9 / 10)))))"
proof -
  note f = learn_example_facts
  note a = learnSimilarity_sentinel_and_loss[of learn_example "''missing''" "''also-missing''" "Fin (9 / 10)"]
  note b = learnSimilarity_sentinel_and_loss[of learn_example "''cat''" "''dog''" "Fin (9 / 10)"]
  have 1: "learnSimilarity learn_example ''missing'' ''also-missing'' (Fin (9 / 10))
      = Inr (Fin (- 1), learn_example)"
    by (rule a[THEN conjunct1, rule_format]) (simp add: f)
  have hyp: "reactor_ok learn_example
     \<and> getEmbedding (cfr_embedding_space learn_example) ''cat'' = Some (TensorEmbedding_of [1, 0])
     \<and> getEmbedding (cfr_embedding_space learn_example) ''dog'' = Some (TensorEmbedding_of [0, 1])"
    by (simp add: f learn_example_ok)
  from b[THEN conjunct2, THEN conjunct2, rule_format, OF hyp]
  obtain t1 t2 el' where
    t: "map_sum id fst (transformF (cfr_learner learn_example) (te_float (TensorEmbedding_of [1, 0]))) = Inr t1"
      "map_sum id fst (transformF (cfr_learner learn_example) (te_float (TensorEmbedding_of [0, 1]))) = Inr t2"
    and l: "learnSimilarity learn_example ''cat'' ''dog'' (Fin (9 / 10))
          = Inr (f_pow2 (f_sub (tef_cosineSimilarity t1 t2) (Fin (9 / 10))),
                 learn_example\<lparr>cfr_learner := el'\<rparr>)"
    by (elim exE conjE) (rule that)
  have t1: "t1 = TensorEmbeddingF_of [Fin (102 / 100), Fin (2 / 100)]"
    and t2: "t2 = TensorEmbeddingF_of [Fin (2 / 100), Fin (102 / 100)]"
    using t by (simp_all only: f(4) example_transform sum.inject)
  have v: "f_pow2 (f_sub (tef_cosineSimilarity t1 t2) (Fin (9 / 10))) = Fin ((51 / 1301 - 9 / 10) ^ 2)"
    unfolding t1 t2 example_cosine
    by (simp add: f_sub_def f_pow2_def fl_def overflow_bound_def power2_eq_square)
  have 5: "map_sum id fst (learnSimilarity learn_example ''cat'' ''dog'' (Fin (9 / 10)))
       = Inr (Fin ((51 / 1301 - 9 / 10) ^ 2))"
    by (simp add: l v)
  have 6: "f_le (Fin 0) (fst (projr (learnSimilarity learn_example ''cat'' ''dog'' (Fin (9 / 10)))))"
    by (simp add: l v f_le_def)
  show ?thesis
    by (intro conjI 1 learn_example_ok f(1) f(2) 5 6)
qed

section \<open>Adding a concept again\<close>

lemma lookup_first_append:
  "lookup_first c (es @ [(c, e)]) = (case lookup_first c es of Some x \<Rightarrow> Some x | None \<Rightarrow> Some e)"
  by (induction c es rule: lookup_first.induct) auto

lemma clamp_half: "clamp (1 / 2) 0 1 = 1 / 2"
  by (simp add: clamp_def)

lemma readd_example_facts:
  "as_name_index (cfr_atomspace readd_example) ''cat'' = Some [1]"
  "map_of (as_atoms (cfr_atomspace readd_example)) 1
     = Some (Node 1 ''cat'' initial_truth_value [8 / 10, 2 / 10])"
  "es_dimensions (cfr_embedding_space readd_example) = cfr_embedding_dim readd_example"
  "cfr_embedding_dim readd_example = 2"
  "getRelevance readd_example 1 = 9 / 10"
  "getAttention readd_example 1 = \<lparr>sti = 8 / 10, lti = 6 / 10, vlti = 4 / 10\<rparr>"
  "getEmbedding (cfr_embedding_space readd_example) ''cat'' = Some (TensorEmbedding_of [8 / 10, 2 / 10])"
  "es_embeddings (cfr_embedding_space readd_example) = [(''cat'', TensorEmbedding_of [8 / 10, 2 / 10])]"
  by (simp_all add: readd_example_def eval_defs addEmbedding_def TensorEmbedding_of_def
      getEmbedding_def getRelevance_def getAttention_def clamp_def)

text \<open>
  C9 as stated fails: the node \<^verbatim>\<open>"x"\<close> exists (added without an embedding), and
  \<^verbatim>\<open>addConcept("x", [1, 0])\<close> reuses it and appends the only entry the embedding
  space has under that name, which the lookup by name then returns.
\<close>

theorem addConcept_first_embedding_is_returned:
  "map_sum id fst (addConcept example_reactor ''x'' []) = Inr (Node 1 ''x'' initial_truth_value [])
   \<and> getAtom (cfr_atomspace late_embedding_example) 1 = Some (Node 1 ''x'' initial_truth_value [])
   \<and> es_embeddings (cfr_embedding_space late_embedding_example) = []
   \<and> map_sum id
         (\<lambda>(node, r). (node, es_embeddings (cfr_embedding_space r),
                        getEmbedding (cfr_embedding_space r) ''x''))
         (addConcept late_embedding_example ''x'' [1, 0])
       = Inr (Node 1 ''x'' initial_truth_value [], [(''x'', TensorEmbedding_of [1, 0])],
              Some (TensorEmbedding_of [1, 0]))"
  by (simp add: late_embedding_example_def eval_defs addEmbedding_def TensorEmbedding_of_def
      getEmbedding_def getAtom_def)

text \<open>
  C9, amended. When \<^verbatim>\<open>addNode\<close> reuses a node for the name (the first handle
  recorded under the name is a node), \<^verbatim>\<open>addConcept(name, embedding)\<close> returns that
  node, leaves the store as it is, and sets the node's relevance to 0.5 and its
  attention to \<open>{0.5, 0.5, 0.5}\<close> whatever they were. When the embedding is non-empty
  and of the facade's dimension it appends the entry \<open>(name, embedding)\<close> at the end of
  the embedding space: if an entry was already stored under the name, the lookup by
  name keeps returning that earlier entry and never the appended one; if none was,
  it returns the appended one. Otherwise the embedding space is unchanged.
\<close>

theorem addConcept_existing_node:
  "\<forall>h hs n. as_name_index (cfr_atomspace r) name = Some (h # hs)
      \<and> map_of (as_atoms (cfr_atomspace r)) h = Some n \<and> isNode n
      \<and> es_dimensions (cfr_embedding_space r) = cfr_embedding_dim r \<longrightarrow>
     (\<exists>r'. addConcept r name embedding = Inr (n, r')
        \<and> cfr_atomspace r' = cfr_atomspace r
        \<and> getRelevance r' (getHandle n) = 1 / 2
        \<and> getAttention r' (getHandle n) = \<lparr>sti = 1 / 2, lti = 1 / 2, vlti = 1 / 2\<rparr>
        \<and> (embedding \<noteq> [] \<and> length embedding = cfr_embedding_dim r \<longrightarrow>
              es_embeddings (cfr_embedding_space r')
                = es_embeddings (cfr_embedding_space r) @ [(name, TensorEmbedding_of embedding)]
              \<and> (\<forall>e. getEmbedding (cfr_embedding_space r) name = Some e \<longrightarrow>
                    getEmbedding (cfr_embedding_space r') name = Some e)
              \<and> (getEmbedding (cfr_embedding_space r) name = None \<longrightarrow>
                    getEmbedding (cfr_embedding_space r') name = Some (TensorEmbedding_of embedding)))
        \<and> (\<not> (embedding \<noteq> [] \<and> length embedding = cfr_embedding_dim r) \<longrightarrow>
              cfr_embedding_space r' = cfr_embedding_space r))"
proof (intro allI impI)
  fix h :: AtomHandle and hs :: "AtomHandle list" and n :: Atom
  assume a: "as_name_index (cfr_atomspace r) name = Some (h # hs)
      \<and> map_of (as_atoms (cfr_atomspace r)) h = Some n \<and> isNode n
      \<and> es_dimensions (cfr_embedding_space r) = cfr_embedding_dim r"
  then have dedup: "addNode (cfr_atomspace r) name embedding = Inr (n, cfr_atomspace r)"
    by (simp add: addNode_dedup)
  define es' where "es' =
     (if embedding \<noteq> [] \<and> length embedding = cfr_embedding_dim r
      then (cfr_embedding_space r)\<lparr>es_embeddings :=
              es_embeddings (cfr_embedding_space r) @ [(name, TensorEmbedding_of embedding)]\<rparr>
      else cfr_embedding_space r)"
  define r' where "r' =
     setAttention (setRelevance (r\<lparr>cfr_atomspace := cfr_atomspace r, cfr_embedding_space := es'\<rparr>)
                     (getHandle n) (1 / 2))
       (getHandle n) \<lparr>sti = 1 / 2, lti = 1 / 2, vlti = 1 / 2\<rparr>"
  have res: "addConcept r name embedding = Inr (n, r')"
    using a by (simp add: addConcept_def dedup addEmbedding_def TensorEmbedding_of_def r'_def es'_def)
  have s: "cfr_atomspace r' = cfr_atomspace r" and e: "cfr_embedding_space r' = es'"
    by (simp_all add: r'_def setAttention_def setRelevance_def)
  have rel: "getRelevance r' (getHandle n) = 1 / 2"
    by (simp add: r'_def setAttention_def setRelevance_def getRelevance_def clamp_half)
  have att: "getAttention r' (getHandle n) = \<lparr>sti = 1 / 2, lti = 1 / 2, vlti = 1 / 2\<rparr>"
    by (simp add: r'_def setAttention_def getAttention_def update_conv')
  show "\<exists>r'. addConcept r name embedding = Inr (n, r')
        \<and> cfr_atomspace r' = cfr_atomspace r
        \<and> getRelevance r' (getHandle n) = 1 / 2
        \<and> getAttention r' (getHandle n) = \<lparr>sti = 1 / 2, lti = 1 / 2, vlti = 1 / 2\<rparr>
        \<and> (embedding \<noteq> [] \<and> length embedding = cfr_embedding_dim r \<longrightarrow>
              es_embeddings (cfr_embedding_space r')
                = es_embeddings (cfr_embedding_space r) @ [(name, TensorEmbedding_of embedding)]
              \<and> (\<forall>e. getEmbedding (cfr_embedding_space r) name = Some e \<longrightarrow>
                    getEmbedding (cfr_embedding_space r') name = Some e)
              \<and> (getEmbedding (cfr_embedding_space r) name = None \<longrightarrow>
                    getEmbedding (cfr_embedding_space r') name = Some (TensorEmbedding_of embedding)))
        \<and> (\<not> (embedding \<noteq> [] \<and> length embedding = cfr_embedding_dim r) \<longrightarrow>
              cfr_embedding_space r' = cfr_embedding_space r)"
  proof (intro exI[of _ r'] conjI impI allI)
    show "addConcept r name embedding = Inr (n, r')" by (rule res)
    show "cfr_atomspace r' = cfr_atomspace r" by (rule s)
    show "getRelevance r' (getHandle n) = 1 / 2" by (rule rel)
    show "getAttention r' (getHandle n) = \<lparr>sti = 1 / 2, lti = 1 / 2, vlti = 1 / 2\<rparr>" by (rule att)
  next
    assume c: "embedding \<noteq> [] \<and> length embedding = cfr_embedding_dim r"
    then show "es_embeddings (cfr_embedding_space r')
                = es_embeddings (cfr_embedding_space r) @ [(name, TensorEmbedding_of embedding)]"
      by (simp add: e es'_def)
    show "getEmbedding (cfr_embedding_space r) name = None \<Longrightarrow>
          getEmbedding (cfr_embedding_space r') name = Some (TensorEmbedding_of embedding)"
      using c by (simp add: e es'_def getEmbedding_def lookup_first_append)
    fix e0 assume "getEmbedding (cfr_embedding_space r) name = Some e0"
    then show "getEmbedding (cfr_embedding_space r') name = Some e0"
      using c by (simp add: e es'_def getEmbedding_def lookup_first_append)
  next
    assume "\<not> (embedding \<noteq> [] \<and> length embedding = cfr_embedding_dim r)"
    then show "cfr_embedding_space r' = cfr_embedding_space r"
      by (simp add: e es'_def)
  qed
qed

text \<open>Witness for C9: \<^verbatim>\<open>"cat"\<close> added again with another embedding after the caller
  set its relevance to 0.9 and its attention to \<open>{0.8, 0.6, 0.4}\<close>.\<close>

theorem addConcept_existing_node_witness:
  "getRelevance readd_example 1 = 9 / 10
   \<and> getAttention readd_example 1 = \<lparr>sti = 8 / 10, lti = 6 / 10, vlti = 4 / 10\<rparr>
   \<and> fst (projr (addConcept readd_example ''cat'' [1 / 10, 9 / 10]))
       = Node 1 ''cat'' initial_truth_value [8 / 10, 2 / 10]
   \<and> getRelevance (snd (projr (addConcept readd_example ''cat'' [1 / 10, 9 / 10]))) 1 = 1 / 2
   \<and> getAttention (snd (projr (addConcept readd_example ''cat'' [1 / 10, 9 / 10]))) 1
       = \<lparr>sti = 1 / 2, lti = 1 / 2, vlti = 1 / 2\<rparr>
   \<and> es_embeddings (cfr_embedding_space (snd (projr (addConcept readd_example ''cat'' [1 / 10, 9 / 10]))))
       = [(''cat'', TensorEmbedding_of [8 / 10, 2 / 10]), (''cat'', TensorEmbedding_of [1 / 10, 9 / 10])]
   \<and> getEmbedding (cfr_embedding_space (snd (projr (addConcept readd_example ''cat'' [1 / 10, 9 / 10])))) ''cat''
       = Some (TensorEmbedding_of [8 / 10, 2 / 10])"
proof -
  note f = readd_example_facts
  define n where "n = Node 1 ''cat'' initial_truth_value [8 / 10, 2 / 10]"
  define res where "res = addConcept readd_example ''cat'' [1 / 10, 9 / 10]"
  have hyp: "as_name_index (cfr_atomspace readd_example) ''cat'' = Some (1 # [])
      \<and> map_of (as_atoms (cfr_atomspace readd_example)) 1 = Some n
      \<and> isNode n
      \<and> es_dimensions (cfr_embedding_space readd_example) = cfr_embedding_dim readd_example"
    by (simp add: f n_def)
  have c: "[1 / 10, 9 / 10 :: real] \<noteq> [] \<and> length [1 / 10, 9 / 10 :: real] = cfr_embedding_dim readd_example"
    by (simp add: f)
  note t = addConcept_existing_node[of readd_example "''cat''" "[1 / 10, 9 / 10]", rule_format, OF hyp,
      folded res_def]
  from t obtain r' where r: "res = Inr (n, r')"
    and rel: "getRelevance r' (getHandle n) = 1 / 2"
    and att: "getAttention r' (getHandle n) = \<lparr>sti = 1 / 2, lti = 1 / 2, vlti = 1 / 2\<rparr>"
    and emb: "[1 / 10, 9 / 10 :: real] \<noteq> [] \<and> length [1 / 10, 9 / 10 :: real] = cfr_embedding_dim readd_example \<longrightarrow>
              es_embeddings (cfr_embedding_space r')
                = es_embeddings (cfr_embedding_space readd_example) @ [(''cat'', TensorEmbedding_of [1 / 10, 9 / 10])]
              \<and> (\<forall>e. getEmbedding (cfr_embedding_space readd_example) ''cat'' = Some e \<longrightarrow>
                    getEmbedding (cfr_embedding_space r') ''cat'' = Some e)
              \<and> (getEmbedding (cfr_embedding_space readd_example) ''cat'' = None \<longrightarrow>
                    getEmbedding (cfr_embedding_space r') ''cat'' = Some (TensorEmbedding_of [1 / 10, 9 / 10]))"
    by (elim exE conjE) (rule that)
  note emb' = emb[rule_format, OF c]
  have h: "getHandle n = 1" by (simp add: n_def)
  have 1: "fst (projr res) = n" and sn: "snd (projr res) = r'"
    by (simp_all add: r)
  have 2: "getRelevance r' 1 = 1 / 2" using rel unfolding h .
  have 3: "getAttention r' 1 = \<lparr>sti = 1 / 2, lti = 1 / 2, vlti = 1 / 2\<rparr>" using att unfolding h .
  have 4: "es_embeddings (cfr_embedding_space r')
       = [(''cat'', TensorEmbedding_of [8 / 10, 2 / 10]), (''cat'', TensorEmbedding_of [1 / 10, 9 / 10])]"
    using emb'[THEN conjunct1] by (simp add: f)
  have 5: "getEmbedding (cfr_embedding_space r') ''cat'' = Some (TensorEmbedding_of [8 / 10, 2 / 10])"
    using emb'[THEN conjunct2, THEN conjunct1, rule_format, OF f(7)] .
  show ?thesis
    unfolding res_def[symmetric] n_def[symmetric] sn 1 by (intro conjI f(5) f(6) refl 2 3 4 5)
qed

end
